theory Spec2Isabelle
  imports Main "HOL-Library.Word"
begin

unbundle bit_operations_syntax

section \<open>Strings\<close>

text \<open>
  A JavaScript string is modelled as a \<^typ>\<open>string\<close>: the characters are the code units
  below 256. \<open>truthy\<close> is the boolean coercion of a string (\<open>if (s)\<close>, \<open>s || d\<close>).
\<close>

definition truthy :: "string \<Rightarrow> bool" where
  "truthy s = (s \<noteq> [])"

text \<open>An optional string field: absent, or present with a string; \<open>x || d\<close> on it.\<close>

definition or_else :: "string option \<Rightarrow> string \<Rightarrow> string" where
  "or_else x d = (case x of None \<Rightarrow> d | Some s \<Rightarrow> if truthy s then s else d)"

definition truthy_opt :: "string option \<Rightarrow> bool" where
  "truthy_opt x = (case x of None \<Rightarrow> False | Some s \<Rightarrow> truthy s)"

text \<open>
  \<open>String.prototype.trim\<close> strips white space and line terminators from both ends; among
  the code units below 256 these are TAB, LF, VT, FF, CR, SPACE and NBSP.
\<close>

definition is_space :: "char \<Rightarrow> bool" where
  "is_space c = ((of_char c :: nat) \<in> set [9, 10, 11, 12, 13, 32, 160])"

definition trim :: "string \<Rightarrow> string" where
  "trim s = rev (dropWhile is_space (rev (dropWhile is_space s)))"

text \<open>\<open>s.substring(0, n)\<close> for a constant \<open>n\<close>.\<close>

definition substring0 :: "nat \<Rightarrow> string \<Rightarrow> string" where
  "substring0 n s = take n s"

text \<open>\<open>toLowerCase\<close>: the ASCII capitals and the Latin-1 capitals (all but the times sign).\<close>

definition lower_char :: "char \<Rightarrow> char" where
  "lower_char c =
     (let n = (of_char c :: nat) in
      if (65 \<le> n \<and> n \<le> 90) \<or> (192 \<le> n \<and> n \<le> 222 \<and> n \<noteq> 215) then char_of (n + 32) else c)"

definition toLowerCase :: "string \<Rightarrow> string" where
  "toLowerCase s = map lower_char s"

definition endsWith :: "string \<Rightarrow> string \<Rightarrow> bool" where
  "endsWith s suf = (length suf \<le> length s \<and> drop (length s - length suf) s = suf)"

text \<open>
  \<open>s.replace(/pat/, rep)\<close> for a pattern that is a literal text: the first occurrence
  (leftmost) is replaced, the string is unchanged when there is none.
\<close>

fun replace_first :: "string \<Rightarrow> string \<Rightarrow> string \<Rightarrow> string" where
  "replace_first pat rep [] = (if pat = [] then rep else [])"
| "replace_first pat rep (c # cs) =
     (if take (length pat) (c # cs) = pat then rep @ drop (length pat) (c # cs)
      else c # replace_first pat rep cs)"

text \<open>\<open>s.replace(/^pat/, rep)\<close>: the pattern is anchored at the start.\<close>

definition replace_prefix :: "string \<Rightarrow> string \<Rightarrow> string \<Rightarrow> string" where
  "replace_prefix pat rep s = (if take (length pat) s = pat then rep @ drop (length pat) s else s)"

section \<open>Content hashing\<close>

subsection \<open>SHA-256\<close>

text \<open>
  \<open>crypto.subtle.digest('SHA-256', data)\<close>: the digest of FIPS 180-4 on a byte sequence,
  32 bytes long.
\<close>

type_synonym byte = "8 word"
type_synonym w32 = "32 word"

definition K256 :: "w32 list" where
  "K256 = [0x428A2F98, 0x71374491, 0xB5C0FBCF, 0xE9B5DBA5, 0x3956C25B, 0x59F111F1, 0x923F82A4, 0xAB1C5ED5,
   0xD807AA98, 0x12835B01, 0x243185BE, 0x550C7DC3, 0x72BE5D74, 0x80DEB1FE, 0x9BDC06A7, 0xC19BF174,
   0xE49B69C1, 0xEFBE4786, 0x0FC19DC6, 0x240CA1CC, 0x2DE92C6F, 0x4A7484AA, 0x5CB0A9DC, 0x76F988DA,
   0x983E5152, 0xA831C66D, 0xB00327C8, 0xBF597FC7, 0xC6E00BF3, 0xD5A79147, 0x06CA6351, 0x14292967,
   0x27B70A85, 0x2E1B2138, 0x4D2C6DFC, 0x53380D13, 0x650A7354, 0x766A0ABB, 0x81C2C92E, 0x92722C85,
   0xA2BFE8A1, 0xA81A664B, 0xC24B8B70, 0xC76C51A3, 0xD192E819, 0xD6990624, 0xF40E3585, 0x106AA070,
   0x19A4C116, 0x1E376C08, 0x2748774C, 0x34B0BCB5, 0x391C0CB3, 0x4ED8AA4A, 0x5B9CCA4F, 0x682E6FF3,
   0x748F82EE, 0x78A5636F, 0x84C87814, 0x8CC70208, 0x90BEFFFA, 0xA4506CEB, 0xBEF9A3F7, 0xC67178F2]"

definition H256 :: "w32 list" where
  "H256 = [0x6A09E667, 0xBB67AE85, 0x3C6EF372, 0xA54FF53A,
           0x510E527F, 0x9B05688C, 0x1F83D9AB, 0x5BE0CD19]"

definition rotr :: "nat \<Rightarrow> w32 \<Rightarrow> w32" where
  "rotr n x = drop_bit n x OR push_bit (32 - n) x"

definition ssig0 :: "w32 \<Rightarrow> w32" where
  "ssig0 x = rotr 7 x XOR rotr 18 x XOR drop_bit 3 x"

definition ssig1 :: "w32 \<Rightarrow> w32" where
  "ssig1 x = rotr 17 x XOR rotr 19 x XOR drop_bit 10 x"

definition bsig0 :: "w32 \<Rightarrow> w32" where
  "bsig0 x = rotr 2 x XOR rotr 13 x XOR rotr 22 x"

definition bsig1 :: "w32 \<Rightarrow> w32" where
  "bsig1 x = rotr 6 x XOR rotr 11 x XOR rotr 25 x"

definition ch :: "w32 \<Rightarrow> w32 \<Rightarrow> w32 \<Rightarrow> w32" where
  "ch x y z = (x AND y) XOR (NOT x AND z)"

definition maj :: "w32 \<Rightarrow> w32 \<Rightarrow> w32 \<Rightarrow> w32" where
  "maj x y z = (x AND y) XOR (x AND z) XOR (y AND z)"

text \<open>The \<open>k\<close> low bytes of a number, most significant first.\<close>

fun be_bytes :: "nat \<Rightarrow> nat \<Rightarrow> byte list" where
  "be_bytes 0 n = []"
| "be_bytes (Suc k) n = be_bytes k (n div 256) @ [of_nat (n mod 256)]"

definition pad :: "byte list \<Rightarrow> byte list" where
  "pad m = m @ [0x80] @ replicate ((119 - length m mod 64) mod 64) 0
             @ be_bytes 8 (8 * length m)"

fun words_of :: "byte list \<Rightarrow> w32 list" where
  "words_of (a # b # c # d # r) =
     (push_bit 24 (ucast a) OR push_bit 16 (ucast b) OR push_bit 8 (ucast c) OR ucast d)
       # words_of r"
| "words_of _ = []"

fun schedule :: "nat \<Rightarrow> w32 list \<Rightarrow> w32 list" where
  "schedule 0 ws = ws"
| "schedule (Suc n) ws =
     schedule n (ws @ [ssig1 (ws ! (length ws - 2)) + ws ! (length ws - 7)
                       + ssig0 (ws ! (length ws - 15)) + ws ! (length ws - 16)])"

fun rounds :: "(w32 \<times> w32) list \<Rightarrow> w32 list \<Rightarrow> w32 list" where
  "rounds ((k, w) # kws) [a, b, c, d, e, f, g, h] =
     (let t1 = h + bsig1 e + ch e f g + k + w; t2 = bsig0 a + maj a b c
      in rounds kws [t1 + t2, a, b, c, d + t1, e, f, g])"
| "rounds _ st = st"

definition compress :: "w32 list \<Rightarrow> w32 list \<Rightarrow> w32 list" where
  "compress st blk = map2 (+) st (rounds (zip K256 (schedule 48 blk)) st)"

function blocks :: "w32 list \<Rightarrow> w32 list \<Rightarrow> w32 list" where
  "blocks st ws =
     (if length ws < 16 then st else blocks (compress st (take 16 ws)) (drop 16 ws))"
  by pat_completeness auto
termination
  by (relation "measure (\<lambda>(st, ws). length ws)") auto

definition bytes_of_w32 :: "w32 \<Rightarrow> byte list" where
  "bytes_of_w32 w = [ucast (drop_bit 24 w), ucast (drop_bit 16 w), ucast (drop_bit 8 w), ucast w]"

definition sha256 :: "byte list \<Rightarrow> byte list" where
  "sha256 m = concat (map bytes_of_w32 (blocks H256 (words_of (pad m))))"

subsection \<open>The fingerprint\<close>

definition hexdigit :: "nat \<Rightarrow> char" where
  "hexdigit n = ''0123456789abcdef'' ! (n mod 16)"

text \<open>\<open>b.toString(16).padStart(2, '0')\<close> for a byte.\<close>

definition hex2 :: "byte \<Rightarrow> string" where
  "hex2 b = [hexdigit (unat b div 16), hexdigit (unat b mod 16)]"

text \<open>
  \<open>JSON.stringify\<close> of a string: the quotation mark and the backslash are escaped, the
  control characters get their short escape or \<open>\u00XX\<close>, everything else is literal.
\<close>

definition json_escape :: "char \<Rightarrow> string" where
  "json_escape c =
     (let n = (of_char c :: nat) in
      if n = 34 then [CHR 0x5C, CHR 0x22]
      else if n = 92 then [CHR 0x5C, CHR 0x5C]
      else if n = 8 then [CHR 0x5C, CHR ''b'']
      else if n = 12 then [CHR 0x5C, CHR ''f'']
      else if n = 10 then [CHR 0x5C, CHR ''n'']
      else if n = 13 then [CHR 0x5C, CHR ''r'']
      else if n = 9 then [CHR 0x5C, CHR ''t'']
      else if n < 32 then [CHR 0x5C, CHR ''u'', CHR ''0'', CHR ''0'', hexdigit (n div 16), hexdigit n]
      else [c])"

definition json_string :: "string \<Rightarrow> string" where
  "json_string s = [CHR 0x22] @ concat (map json_escape s) @ [CHR 0x22]"

text \<open>\<open>new TextEncoder().encode\<close>: UTF-8, one byte below 128 and two bytes from 128 to 255.\<close>

definition utf8_char :: "char \<Rightarrow> byte list" where
  "utf8_char c =
     (let n = (of_char c :: nat) in
      if n < 128 then [of_nat n] else [of_nat (192 + n div 64), of_nat (128 + n mod 64)])"

definition utf8 :: "string \<Rightarrow> byte list" where
  "utf8 s = concat (map utf8_char s)"

text \<open>
  The text that is hashed: \<open>JSON.stringify({url, headline: headline.trim(),
  snippet: snippet.trim().substring(0, 300)})\<close>, the keys in this order.
\<close>

definition hash_content :: "string \<Rightarrow> string \<Rightarrow> string \<Rightarrow> string" where
  "hash_content normalizedUrl headline snippet =
     [CHR 0x7B] @ json_string ''url'' @ '':'' @ json_string normalizedUrl
     @ '','' @ json_string ''headline'' @ '':'' @ json_string (trim headline)
     @ '','' @ json_string ''snippet'' @ '':'' @ json_string (substring0 300 (trim snippet))
     @ [CHR 0x7D]"

definition generateContentHash :: "string \<Rightarrow> string \<Rightarrow> string \<Rightarrow> string" where
  "generateContentHash normalizedUrl headline snippet =
     concat (map hex2 (sha256 (utf8 (hash_content normalizedUrl headline snippet))))"

section \<open>URL normalization\<close>

text \<open>
  The runtime's \<open>URL\<close> object, as the record of the components the normalizer reads and
  writes; the query is the list of name/value pairs behind \<open>searchParams\<close> and the
  fragment is \<open>hash\<close> without its number sign. Parsing (\<open>new URL\<close>) and serialising
  (\<open>toString\<close>) belong to the runtime and are parameters, collected with the other
  outside collaborators in \<open>platform\<close>.
\<close>

record url =
  protocol :: string
  username :: string
  password :: string
  hostname :: string
  port :: string
  pathname :: string
  searchParams :: "(string \<times> string) list"
  fragment :: string

text \<open>
  \<open>URL_parse\<close> is \<open>new URL(s)\<close>, \<open>None\<close> when it throws. \<open>extractContent\<close> is the
  HTML extractor (site parsers, then the generic extractor) on the page and its address,
  \<open>None\<close> when it throws. \<open>replicate_api\<close> is the provider's answer to a prompt:
  \<open>Inl\<close> the message of the error \<open>createPrediction\<close> throws (the request failed or
  was answered with a non-2xx status), \<open>Inr\<close> the id of the accepted prediction.
\<close>

record platform =
  URL_parse :: "string \<Rightarrow> url option"
  URL_toString :: "url \<Rightarrow> string"
  extractContent :: "string \<Rightarrow> string \<Rightarrow> string option"
  replicate_api :: "string \<Rightarrow> string + string"

definition trackingParams :: "string list" where
  "trackingParams =
     [''utm_source'', ''utm_medium'', ''utm_campaign'', ''utm_term'', ''utm_content'',
      ''fbclid'', ''gclid'', ''ref'', ''source'', ''medium'', ''campaign'',
      ''_ga'', ''_gl'', ''mc_cid'', ''mc_eid'', ''igshid'', ''twclid'']"

text \<open>\<open>searchParams.delete(name)\<close> removes every pair of that name.\<close>

definition searchParams_delete :: "string \<Rightarrow> url \<Rightarrow> url" where
  "searchParams_delete name u =
     u\<lparr>searchParams := filter (\<lambda>kv. fst kv \<noteq> name) (searchParams u)\<rparr>"

text \<open>
  The \<open>hostname\<close> setter: an empty host is refused and the object keeps its host; the
  other setters used here (\<open>pathname\<close>, \<open>hash\<close>) are plain assignments on a parsed URL.
\<close>

definition set_hostname :: "string \<Rightarrow> url \<Rightarrow> url" where
  "set_hostname h u = (if h = [] then u else u\<lparr>hostname := h\<rparr>)"

text \<open>The two kinds of regular expression in \<open>mobilePatterns\<close>: \<open>/^text/\<close> and \<open>/text/\<close>.\<close>

datatype pattern = AtStart string | Anywhere string

fun replace_pattern :: "pattern \<times> string \<Rightarrow> string \<Rightarrow> string" where
  "replace_pattern (AtStart t, replacement) s = replace_prefix t replacement s"
| "replace_pattern (Anywhere t, replacement) s = replace_first t replacement s"

definition mobilePatterns :: "(pattern \<times> string) list" where
  "mobilePatterns =
     [(AtStart ''m.'', []), (Anywhere ''.m.'', ''.''),
      (Anywhere ''/mobile/'', ''/''), (Anywhere ''/m/'', ''/'')]"

text \<open>The body of \<open>normalizeUrl\<close> between parsing and serialising, on the URL object.\<close>

definition normalize_parts :: "url \<Rightarrow> url" where
  "normalize_parts urlObj =
     (let u1 = set_hostname (toLowerCase (hostname urlObj)) urlObj;
          u2 = fold searchParams_delete trackingParams u1;
          u3 = u2\<lparr>fragment := []\<rparr>;
          p = pathname u3;
          p' = (if length p > 1 \<and> endsWith p ''/'' then butlast p else p);
          u4 = u3\<lparr>pathname := p'\<rparr>;
          h = fold replace_pattern mobilePatterns (hostname u4)
      in set_hostname h u4)"

definition normalizeUrl :: "platform \<Rightarrow> string \<Rightarrow> string" where
  "normalizeUrl P u =
     (case URL_parse P u of
        None \<Rightarrow> u
      | Some urlObj \<Rightarrow> URL_toString P (normalize_parts urlObj))"

section \<open>Content extraction with fallbacks\<close>

definition extractContentSafe ::
  "platform \<Rightarrow> string option \<Rightarrow> string \<Rightarrow> string option \<Rightarrow> string" where
  "extractContentSafe P html u fallbackSnippet =
     (if \<not> truthy_opt html \<or> length (trim (the html)) = 0 then
        (if truthy_opt fallbackSnippet then the fallbackSnippet else [])
      else
        (case extractContent P (the html) u of
           None \<Rightarrow> (if truthy_opt fallbackSnippet then the fallbackSnippet else [])
         | Some text \<Rightarrow>
             if (\<not> truthy text \<or> length text < 50)
                \<and> truthy_opt fallbackSnippet \<and> length (the fallbackSnippet) > length text
             then the fallbackSnippet
             else text))"

section \<open>The expiring key/value store\<close>

subsection \<open>Stored values\<close>

text \<open>
  A stored value is a string. Two kinds of values are the \<open>JSON.stringify\<close> text of an
  object; such a text is represented by the object it was made from, so that
  \<open>JSON.parse\<close> gives the object back. The fields of a prediction record other than the
  hash are optional, as the handler that reads them allows for their absence.
\<close>

record article_summary =
  a_summary :: string
  a_headline :: string
  a_model :: string
  a_generatedAt :: nat

record prediction_data =
  p_hash :: string
  p_headline :: "string option"
  p_normalizedUrl :: "string option"

datatype sval = Txt string | ArticleJson article_summary | PredictionJson prediction_data

function decimal :: "nat \<Rightarrow> string" where
  "decimal n = (if n < 10 then [hexdigit n] else decimal (n div 10) @ [hexdigit (n mod 10)])"
  by pat_completeness auto
termination
  by (relation "measure id") auto

definition json_field :: "string \<Rightarrow> string \<Rightarrow> string" where
  "json_field name text = json_string name @ '':'' @ text"

definition json_object :: "string list \<Rightarrow> string" where
  "json_object members =
     [CHR 0x7B] @ foldr (\<lambda>f acc. if acc = [] then f else f @ '','' @ acc) members []
     @ [CHR 0x7D]"

definition opt_field :: "string \<Rightarrow> string option \<Rightarrow> string list" where
  "opt_field name x = (case x of None \<Rightarrow> [] | Some s \<Rightarrow> [json_field name (json_string s)])"

text \<open>The string a stored value is, for the places that use it as text.\<close>

fun sval_text :: "sval \<Rightarrow> string" where
  "sval_text (Txt s) = s"
| "sval_text (ArticleJson a) =
     json_object [json_field ''summary'' (json_string (a_summary a)),
                  json_field ''headline'' (json_string (a_headline a)),
                  json_field ''model'' (json_string (a_model a)),
                  json_field ''generatedAt'' (decimal (a_generatedAt a))]"
| "sval_text (PredictionJson p) =
     json_object ([json_field ''hash'' (json_string (p_hash p))]
                  @ opt_field ''headline'' (p_headline p)
                  @ opt_field ''normalizedUrl'' (p_normalizedUrl p))"

text \<open>
  \<open>JSON.parse\<close> where the handlers expect an article summary or a prediction record;
  \<open>None\<close> is a value that is not such a document, on which the handler fails with
  the runtime's error.
\<close>

fun parse_article :: "sval \<Rightarrow> article_summary option" where
  "parse_article (ArticleJson a) = Some a"
| "parse_article _ = None"

fun parse_prediction :: "sval \<Rightarrow> prediction_data option" where
  "parse_prediction (PredictionJson p) = Some p"
| "parse_prediction _ = None"

definition json_error :: string where
  "json_error = ''Unexpected token in JSON''"

subsection \<open>The remote store and its transport\<close>

text \<open>
  The commands the client sends, the \<open>result\<close> field of the store's reply, and the
  store itself: the live keys with their value and the lifetime in seconds they were
  written with (\<open>None\<close>: no expiry).
\<close>

datatype command =
    GET string
  | SET string sval "nat option"
  | SETNX string sval nat
  | DEL string

datatype reply = Null | Str sval | Num nat

type_synonym store = "string \<rightharpoonup> sval \<times> nat option"

fun server :: "store \<Rightarrow> command \<Rightarrow> reply \<times> store" where
  "server s (GET k) = ((case s k of None \<Rightarrow> Null | Some (v, t) \<Rightarrow> Str v), s)"
| "server s (SET k v ttl) = (Str (Txt ''OK''), s(k \<mapsto> (v, ttl)))"
| "server s (SETNX k v ttl) =
     (case s k of None \<Rightarrow> (Str (Txt ''OK''), s(k \<mapsto> (v, Some ttl))) | Some e \<Rightarrow> (Null, s))"
| "server s (DEL k) = (Num (if s k = None then 0 else 1), s(k := None))"

text \<open>
  What a handler's run can be observed to do: the commands sent to the store, each with
  the reply the client got (\<open>None\<close>: the request failed), and the calls to the provider
  with the article text and the headline.
\<close>

datatype event = StoreCall command "reply option" | ProviderCall string string

text \<open>
  The world a handler runs in: the store, the transport's schedule (for each coming
  request whether it fails; no failure once the list is used up), the events so far
  and the clock \<open>Date.now()\<close> reads.
\<close>

record world =
  kv :: store
  net :: "bool list"
  trace :: "event list"
  clock :: nat

definition transport_error :: string where
  "transport_error = ''Redis request failed''"

text \<open>
  \<open>executeCommand\<close>: \<open>Inl\<close> is the error it throws when the request fails or is answered
  with a non-2xx status, and the store has then not run the command.
\<close>

definition executeCommand :: "world \<Rightarrow> command \<Rightarrow> (string + reply) \<times> world" where
  "executeCommand w cmd =
     (let fails = (case net w of [] \<Rightarrow> False | b # bs \<Rightarrow> b);
          w1 = w\<lparr>net := tl (net w)\<rparr>
      in if fails then (Inl transport_error, w1\<lparr>trace := trace w @ [StoreCall cmd None]\<rparr>)
         else (let (r, s) = server (kv w) cmd
               in (Inr r, w1\<lparr>kv := s, trace := trace w @ [StoreCall cmd (Some r)]\<rparr>)))"

subsection \<open>The client\<close>

text \<open>
  Each operation of the client returns a promise: \<open>Inl\<close> is a rejection with the error's
  message, \<open>Inr\<close> the value it resolves to. The \<open>catch\<close> of each operation is the
  \<open>Inl\<close> branch of its \<open>executeCommand\<close>.
\<close>

definition sval_truthy :: "sval \<Rightarrow> bool" where
  "sval_truthy v = truthy (sval_text v)"

definition redis_get :: "world \<Rightarrow> string \<Rightarrow> (string + sval option) \<times> world" where
  "redis_get w key =
     (case executeCommand w (GET key) of
        (Inl e, w') \<Rightarrow> (Inr None, w')
      | (Inr r, w') \<Rightarrow>
          (Inr (case r of
                  Null \<Rightarrow> None
                | Str v \<Rightarrow> if sval_truthy v then Some v else None
                | Num n \<Rightarrow> if n = 0 then None else Some (Txt (decimal n))), w'))"

definition redis_set ::
  "world \<Rightarrow> string \<Rightarrow> sval \<Rightarrow> nat option \<Rightarrow> (string + bool) \<times> world" where
  "redis_set w key v ttlSeconds =
     (let cmd = (case ttlSeconds of
                   None \<Rightarrow> SET key v None
                 | Some n \<Rightarrow> if n = 0 then SET key v None else SET key v (Some n))
      in case executeCommand w cmd of
           (Inl e, w') \<Rightarrow> (Inr False, w')
         | (Inr r, w') \<Rightarrow> (Inr (r = Str (Txt ''OK'')), w'))"

definition redis_setnx :: "world \<Rightarrow> string \<Rightarrow> sval \<Rightarrow> nat \<Rightarrow> (string + bool) \<times> world" where
  "redis_setnx w key v ttlSeconds =
     (case executeCommand w (SETNX key v ttlSeconds) of
        (Inl e, w') \<Rightarrow> (Inr False, w')
      | (Inr r, w') \<Rightarrow> (Inr (r = Str (Txt ''OK'')), w'))"

definition redis_del :: "world \<Rightarrow> string \<Rightarrow> (string + bool) \<times> world" where
  "redis_del w key =
     (case executeCommand w (DEL key) of
        (Inl e, w') \<Rightarrow> (Inr False, w')
      | (Inr r, w') \<Rightarrow> (Inr (case r of Num n \<Rightarrow> n > 0 | _ \<Rightarrow> False), w'))"

section \<open>The provider client\<close>

definition newline :: string where
  "newline = [CHR 0x0A]"

definition prompt :: "string \<Rightarrow> string \<Rightarrow> string" where
  "prompt text headline =
     ''Summarize the following article in 2-3 concise paragraphs. ''
     @ ''Focus on the main points and key information.'' @ newline @ newline
     @ ''Title: '' @ (if truthy headline then headline else ''Untitled'') @ newline @ newline
     @ ''Article:'' @ newline @ text @ newline @ newline @ ''Summary:''"

type_synonym 'a promise = "(string + 'a) \<times> world"

definition createPrediction :: "platform \<Rightarrow> world \<Rightarrow> string \<Rightarrow> string \<Rightarrow> string promise" where
  "createPrediction P w text headline =
     (replicate_api P (prompt text headline),
      w\<lparr>trace := trace w @ [ProviderCall text headline]\<rparr>)"

section \<open>The request handlers\<close>

text \<open>
  \<open>await\<close> continues with the value of a promise and passes a rejection on;
  \<open>respond\<close> is the outermost \<open>try\<close>/\<open>catch\<close> of a handler, which answers a thrown
  error with status 500 and the error's message.
\<close>

datatype response =
    Complete string string nat string
  | Pending string
  | Processing string string
  | Unknown "string option"
  | BadRequest string
  | InternalError string
  | AckWarning string
  | AckStored
  | AckError "string option"
  | Ack

definition await :: "'a promise \<Rightarrow> ('a \<Rightarrow> world \<Rightarrow> 'b promise) \<Rightarrow> 'b promise" where
  "await m f = (case m of (Inl e, w) \<Rightarrow> (Inl e, w) | (Inr x, w) \<Rightarrow> f x w)"

definition respond :: "response promise \<Rightarrow> response \<times> world" where
  "respond m = (case m of (Inl e, w) \<Rightarrow> (InternalError e, w) | (Inr r, w) \<Rightarrow> (r, w))"

definition complete_response :: "article_summary \<Rightarrow> string \<Rightarrow> response" where
  "complete_response summary h =
     Complete (a_summary summary) (a_headline summary) (a_generatedAt summary) h"

subsection \<open>Generate\<close>

record summary_request =
  b_url :: "string option"
  b_headline :: "string option"
  b_html :: "string option"
  b_snippet :: "string option"

text \<open>
  The inner \<open>try\<close>/\<open>catch\<close> of the handler: a thrown error releases the lock and is
  thrown again.
\<close>

definition release_on_error :: "string \<Rightarrow> 'a promise \<Rightarrow> 'a promise" where
  "release_on_error lockKey m =
     (case m of
        (Inl e, w) \<Rightarrow> await (redis_del w lockKey) (\<lambda>r w'. (Inl e, w'))
      | (Inr x, w) \<Rightarrow> (Inr x, w))"

text \<open>
  The values the handler computes between its store accesses: \<open>extractedText\<close>
  (step 2), \<open>hash\<close> (step 3) and the \<open>text\<close> sent to the provider (step 6).
\<close>

definition extractedText_of :: "platform \<Rightarrow> summary_request \<Rightarrow> string \<Rightarrow> string" where
  "extractedText_of P body normalizedUrl =
     (if truthy_opt (b_html body)
      then extractContentSafe P (b_html body) normalizedUrl (b_snippet body)
      else or_else (b_snippet body) [])"

definition hash_of :: "platform \<Rightarrow> summary_request \<Rightarrow> string \<Rightarrow> string" where
  "hash_of P body normalizedUrl =
     generateContentHash normalizedUrl (or_else (b_headline body) [])
       (substring0 300 (extractedText_of P body normalizedUrl))"

definition text_of :: "platform \<Rightarrow> summary_request \<Rightarrow> string \<Rightarrow> string" where
  "text_of P body normalizedUrl =
     (if truthy (extractedText_of P body normalizedUrl)
      then extractedText_of P body normalizedUrl
      else or_else (b_snippet body) [])"

text \<open>Step 6, entered with the lock acquired.\<close>

definition generate_locked ::
  "platform \<Rightarrow> world \<Rightarrow> summary_request \<Rightarrow> string \<Rightarrow> response promise" where
  "generate_locked P w body normalizedUrl =
     (let hash = hash_of P body normalizedUrl;
          lockKey = ''lock:'' @ hash;
          text = text_of P body normalizedUrl
      in release_on_error lockKey
           (if \<not> truthy text \<or> length (trim text) = 0 then
              await (redis_del w lockKey)
                (\<lambda>r w. (Inr (BadRequest ''No content available for summarization''), w))
            else
              await (createPrediction P w text (or_else (b_headline body) []))
                (\<lambda>predictionId w.
                   await (redis_set w (''prediction:'' @ predictionId)
                            (PredictionJson
                               \<lparr>p_hash = hash,
                                p_headline = Some (or_else (b_headline body) []),
                                p_normalizedUrl = Some normalizedUrl\<rparr>)
                            (Some 3600))
                     (\<lambda>r w. (Inr (Processing hash predictionId), w)))))"

text \<open>Steps 2 to 5, entered when the URL gave no cached article.\<close>

definition generate_steps ::
  "platform \<Rightarrow> world \<Rightarrow> summary_request \<Rightarrow> string \<Rightarrow> response promise" where
  "generate_steps P w body normalizedUrl =
     (let urlKey = ''url:'' @ normalizedUrl;
          hash = hash_of P body normalizedUrl;
          articleKey = ''article:'' @ hash
      in await (redis_get w articleKey)
           (\<lambda>cachedArticle w.
              case cachedArticle of
                Some c \<Rightarrow>
                  (case parse_article c of
                     None \<Rightarrow> (Inl json_error, w)
                   | Some summary \<Rightarrow>
                       await (redis_set w urlKey (Txt hash) (Some 604800))
                         (\<lambda>r w. (Inr (complete_response summary hash), w)))
              | None \<Rightarrow>
                  await (redis_setnx w (''lock:'' @ hash) (Txt ''1'') 60)
                    (\<lambda>lockAcquired w.
                       if \<not> lockAcquired then (Inr (Pending hash), w)
                       else generate_locked P w body normalizedUrl)))"

text \<open>
  The request is the outcome of \<open>req.json()\<close>: \<open>Inl\<close> the message of the error it
  throws on a body that is not JSON, \<open>Inr\<close> the body.
\<close>

definition handleGenerateSummary ::
  "platform \<Rightarrow> world \<Rightarrow> string + summary_request \<Rightarrow> response \<times> world" where
  "handleGenerateSummary P w req =
     respond
       (case req of
          Inl e \<Rightarrow> (Inl e, w)
        | Inr body \<Rightarrow>
            if \<not> truthy_opt (b_url body) then (Inr (BadRequest ''URL is required''), w)
            else
              (let normalizedUrl = normalizeUrl P (the (b_url body));
                   urlKey = ''url:'' @ normalizedUrl
               in await (redis_get w urlKey)
                    (\<lambda>existingHash w.
                       case existingHash of
                         None \<Rightarrow> generate_steps P w body normalizedUrl
                       | Some h \<Rightarrow>
                           await (redis_get w (''article:'' @ sval_text h))
                             (\<lambda>cachedArticle w.
                                case cachedArticle of
                                  None \<Rightarrow> generate_steps P w body normalizedUrl
                                | Some c \<Rightarrow>
                                    (case parse_article c of
                                       None \<Rightarrow> (Inl json_error, w)
                                     | Some summary \<Rightarrow>
                                         (Inr (complete_response summary (sval_text h)), w))))))"

subsection \<open>Fetch\<close>

record fetch_query =
  q_url :: "string option"
  q_hash :: "string option"

definition handleFetchSummary :: "platform \<Rightarrow> world \<Rightarrow> fetch_query \<Rightarrow> response \<times> world" where
  "handleFetchSummary P w q =
     respond
       (if \<not> truthy_opt (q_url q) \<and> \<not> truthy_opt (q_hash q) then
          (Inr (BadRequest ''Either url or hash parameter is required''), w)
        else
          await (if truthy_opt (q_hash q) then (Inr (q_hash q), w)
                 else if truthy_opt (q_url q) then
                   await (redis_get w (''url:'' @ normalizeUrl P (the (q_url q))))
                     (\<lambda>found w. (Inr (map_option sval_text found), w))
                 else (Inr None, w))
            (\<lambda>resolved w.
               if \<not> truthy_opt resolved then (Inr (Unknown None), w)
               else
                 (let hash = the resolved
                  in await (redis_get w (''article:'' @ hash))
                       (\<lambda>cachedArticle w.
                          case cachedArticle of
                            Some c \<Rightarrow>
                              (case parse_article c of
                                 None \<Rightarrow> (Inl json_error, w)
                               | Some summary \<Rightarrow> (Inr (complete_response summary hash), w))
                          | None \<Rightarrow>
                              await (redis_get w (''lock:'' @ hash))
                                (\<lambda>lockExists w.
                                   case lockExists of
                                     Some l \<Rightarrow> (Inr (Pending hash), w)
                                   | None \<Rightarrow> (Inr (Unknown (Some hash)), w))))))"

subsection \<open>The completion callback\<close>

datatype prediction_status = StStarting | StProcessing | StSucceeded | StFailed | StCanceled

datatype prediction_output = OutText string | OutList "string list"

record webhook_payload =
  w_id :: string
  w_status :: prediction_status
  w_output :: "prediction_output option"
  w_error :: "string option"

text \<open>The boolean coercion of \<open>payload.output\<close>: an array is truthy, also the empty one.\<close>

fun output_truthy :: "prediction_output option \<Rightarrow> bool" where
  "output_truthy None = False"
| "output_truthy (Some (OutText s)) = truthy s"
| "output_truthy (Some (OutList xs)) = True"

fun join :: "string \<Rightarrow> string list \<Rightarrow> string" where
  "join sep [] = []"
| "join sep [x] = x"
| "join sep (x # y # ys) = x @ sep @ join sep (y # ys)"

fun output_text :: "prediction_output \<Rightarrow> string" where
  "output_text (OutList xs) = join newline xs"
| "output_text (OutText s) = s"

definition handleWebhook :: "world \<Rightarrow> string + webhook_payload \<Rightarrow> response \<times> world" where
  "handleWebhook w req =
     respond
       (case req of
          Inl e \<Rightarrow> (Inl e, w)
        | Inr payload \<Rightarrow>
            (let predictionKey = ''prediction:'' @ w_id payload
             in await (redis_get w predictionKey)
                  (\<lambda>predictionDataStr w.
                     case predictionDataStr of
                       None \<Rightarrow> (Inr (AckWarning ''Unknown prediction ID''), w)
                     | Some s \<Rightarrow>
                         (case parse_prediction s of
                            None \<Rightarrow> (Inl json_error, w)
                          | Some predictionData \<Rightarrow>
                              (let hash = p_hash predictionData;
                                   headline = or_else (p_headline predictionData) ''Article Summary'';
                                   normalizedUrl = p_normalizedUrl predictionData
                               in if w_status payload = StSucceeded \<and> output_truthy (w_output payload)
                                  then
                                    (let summaryText = output_text (the (w_output payload));
                                         summary = \<lparr>a_summary = trim summaryText,
                                                    a_headline = headline,
                                                    a_model = ''google-deepmind/gemma-2b'',
                                                    a_generatedAt = clock w\<rparr>
                                     in await (redis_set w (''article:'' @ hash) (ArticleJson summary)
                                                 (Some 604800))
                                          (\<lambda>r w.
                                             await (if truthy_opt normalizedUrl
                                                    then redis_set w (''url:'' @ the normalizedUrl)
                                                           (Txt hash) (Some 604800)
                                                    else (Inr True, w))
                                               (\<lambda>r w.
                                                  await (redis_del w predictionKey)
                                                    (\<lambda>r w.
                                                       await (redis_del w (''lock:'' @ hash))
                                                         (\<lambda>r w. (Inr AckStored, w))))))
                                  else if w_status payload = StFailed then
                                    await (redis_del w (''lock:'' @ hash))
                                      (\<lambda>r w.
                                         await (redis_del w predictionKey)
                                           (\<lambda>r w. (Inr (AckError (w_error payload)), w)))
                                  else (Inr Ack, w))))))"

section \<open>Observing a run\<close>

text \<open>
  The two components of \<open>executeCommand\<close>: the reply the client gets (\<open>None\<close> when the
  request fails) and the world afterwards.
\<close>

definition reply_of :: "world \<Rightarrow> command \<Rightarrow> reply option" where
  "reply_of w cmd = (case fst (executeCommand w cmd) of Inl e \<Rightarrow> None | Inr r \<Rightarrow> Some r)"

definition after :: "world \<Rightarrow> command \<Rightarrow> world" where
  "after w cmd = snd (executeCommand w cmd)"

text \<open>What \<open>get\<close> resolves to.\<close>

definition got :: "world \<Rightarrow> string \<Rightarrow> sval option" where
  "got w key = (case fst (redis_get w key) of Inl e \<Rightarrow> None | Inr x \<Rightarrow> x)"

text \<open>A transport on which no coming request fails.\<close>

definition reliable :: "world \<Rightarrow> bool" where
  "reliable w = (True \<notin> set (net w))"

text \<open>What \<open>get\<close> resolves to on a key when its request is delivered.\<close>

definition lookup :: "store \<Rightarrow> string \<Rightarrow> sval option" where
  "lookup s k = (case s k of None \<Rightarrow> None | Some (v, t) \<Rightarrow> if sval_truthy v then Some v else None)"

text \<open>The events of a run from world \<open>w\<close> to world \<open>w'\<close>, and the commands among events.\<close>

definition new_events :: "world \<Rightarrow> world \<Rightarrow> event list" where
  "new_events w w' = drop (length (trace w)) (trace w')"

fun issued :: "event list \<Rightarrow> command list" where
  "issued [] = []"
| "issued (StoreCall c r # es) = c # issued es"
| "issued (ProviderCall t h # es) = issued es"

fun provider_calls :: "event list \<Rightarrow> (string \<times> string) list" where
  "provider_calls [] = []"
| "provider_calls (StoreCall c r # es) = provider_calls es"
| "provider_calls (ProviderCall t h # es) = (t, h) # provider_calls es"

text \<open>
  \<open>guarded c acq es\<close>: in \<open>es\<close> every call to the provider comes after a command \<open>c\<close>
  that the store answered with \<open>OK\<close> (\<open>acq\<close>: such a command has been seen already).
\<close>

fun guarded :: "command \<Rightarrow> bool \<Rightarrow> event list \<Rightarrow> bool" where
  "guarded c acq [] = True"
| "guarded c acq (ProviderCall t h # es) = (acq \<and> guarded c acq es)"
| "guarded c acq (StoreCall cmd r # es) =
     guarded c (acq \<or> (cmd = c \<and> r = Some (Str (Txt ''OK'')))) es"

section \<open>Example data\<close>

text \<open>
  A platform and worlds to run the handlers on: the runtime's parser on two addresses,
  a serialiser for addresses without user, port or escapes, an extractor that returns the
  page as it is and a provider that accepts every prompt as prediction \<open>job1\<close>.
\<close>

definition example_parse :: "string \<Rightarrow> url option" where
  "example_parse s =
     (if s = ''https://m.example.com/a?utm_source=x'' then
        Some \<lparr>protocol = ''https:'', username = [], password = [], hostname = ''m.example.com'',
              port = [], pathname = ''/a'', searchParams = [(''utm_source'', ''x'')],
              fragment = []\<rparr>
      else if s = ''https://example.com/mobile/a'' then
        Some \<lparr>protocol = ''https:'', username = [], password = [], hostname = ''example.com'',
              port = [], pathname = ''/mobile/a'', searchParams = [], fragment = []\<rparr>
      else None)"

definition example_toString :: "url \<Rightarrow> string" where
  "example_toString u =
     protocol u @ ''//'' @ hostname u @ pathname u
     @ (if searchParams u = [] then []
        else ''?'' @ join ''&'' (map (\<lambda>kv. fst kv @ ''='' @ snd kv) (searchParams u)))
     @ (if fragment u = [] then [] else ''#'' @ fragment u)"

definition example_platform :: platform where
  "example_platform =
     \<lparr>URL_parse = example_parse, URL_toString = example_toString,
      extractContent = (\<lambda>html u. Some html), replicate_api = (\<lambda>p. Inr ''job1'')\<rparr>"

definition empty_world :: world where
  "empty_world = \<lparr>kv = Map.empty, net = [], trace = [], clock = 1700000000000\<rparr>"

text \<open>A world whose next request to the store fails.\<close>

definition failing_world :: world where
  "failing_world = \<lparr>kv = Map.empty, net = [True], trace = [], clock = 1700000000000\<rparr>"

text \<open>A store with the lock and the prediction record of a job in flight for hash \<open>abc\<close>.\<close>

definition job_record :: prediction_data where
  "job_record = \<lparr>p_hash = ''abc'', p_headline = Some ''H'',
                 p_normalizedUrl = Some ''https://example.com/a''\<rparr>"

definition job_world :: world where
  "job_world =
     \<lparr>kv = [''lock:abc'' \<mapsto> (Txt ''1'', Some 60),
             ''prediction:job1'' \<mapsto> (PredictionJson job_record, Some 3600)],
      net = [], trace = [], clock = 1700000000000\<rparr>"

text \<open>A store with a finished article summary for hash \<open>abc\<close> and its URL index entry.\<close>

definition cached_world :: world where
  "cached_world =
     \<lparr>kv = [''article:abc'' \<mapsto>
               (ArticleJson \<lparr>a_summary = ''Result text'', a_headline = ''H'',
                              a_model = ''google-deepmind/gemma-2b'',
                              a_generatedAt = 1700000000000\<rparr>, Some 604800),
             ''url:https://example.com/a'' \<mapsto> (Txt ''abc'', Some 604800)],
      net = [], trace = [], clock = 1700000000000\<rparr>"

definition callback :: "prediction_status \<Rightarrow> prediction_output option \<Rightarrow> webhook_payload" where
  "callback st out = \<lparr>w_id = ''job1'', w_status = st, w_output = out, w_error = None\<rparr>"

definition example_request :: summary_request where
  "example_request =
     \<lparr>b_url = Some ''https://m.example.com/a?utm_source=x'', b_headline = Some ''H'',
      b_html = None, b_snippet = Some ''S''\<rparr>"

definition empty_request :: summary_request where
  "empty_request =
     \<lparr>b_url = Some ''https://m.example.com/a?utm_source=x'', b_headline = Some ''H'',
      b_html = None, b_snippet = None\<rparr>"

section \<open>Facts about the client\<close>

lemma sval_truthy_docs [simp]: "sval_truthy (PredictionJson p)" "sval_truthy (ArticleJson a)"
  by (simp_all add: sval_truthy_def truthy_def json_object_def)

lemma sval_truthy_Txt [simp]: "sval_truthy (Txt s) = (s \<noteq> [])"
  by (simp add: sval_truthy_def truthy_def)

lemma executeCommand_eq:
  "executeCommand w cmd =
     ((case reply_of w cmd of None \<Rightarrow> Inl transport_error | Some r \<Rightarrow> Inr r), after w cmd)"
  by (simp add: executeCommand_def reply_of_def after_def Let_def split: prod.splits)

lemma trace_after [simp]: "trace (after w cmd) = trace w @ [StoreCall cmd (reply_of w cmd)]"
  by (simp add: executeCommand_def reply_of_def after_def Let_def split: prod.splits)

lemma clock_after [simp]: "clock (after w cmd) = clock w"
  by (simp add: executeCommand_def after_def Let_def split: prod.splits)

lemma net_after [simp]: "net (after w cmd) = tl (net w)"
  by (simp add: executeCommand_def after_def Let_def split: prod.splits)

lemma kv_after:
  "kv (after w cmd) = (case reply_of w cmd of None \<Rightarrow> kv w | Some r \<Rightarrow> snd (server (kv w) cmd))"
  by (simp add: executeCommand_def reply_of_def after_def Let_def split: prod.splits)

lemma kv_after_GET [simp]: "kv (after w (GET k)) = kv w"
  by (simp add: kv_after split: option.splits)

lemma reliable_after [simp]: "reliable w \<Longrightarrow> reliable (after w cmd)"
  by (cases "net w") (simp_all add: reliable_def)

lemma reply_of_reliable:
  "reliable w \<Longrightarrow> reply_of w cmd = Some (fst (server (kv w) cmd))"
  by (cases "net w")
    (simp_all add: reliable_def executeCommand_def reply_of_def Let_def split: prod.splits)

lemma reply_of_failing: "net w = True # bs \<Longrightarrow> reply_of w cmd = None"
  by (simp add: executeCommand_def reply_of_def Let_def)

lemma reply_of_cases:
  "reply_of w cmd = None \<or> reply_of w cmd = Some (fst (server (kv w) cmd))"
  by (simp add: executeCommand_def reply_of_def Let_def split: prod.splits)

lemma redis_get_eq: "redis_get w key = (Inr (got w key), after w (GET key))"
  by (simp add: got_def redis_get_def executeCommand_eq split: option.splits reply.splits)

lemma got_reliable: "reliable w \<Longrightarrow> got w key = lookup (kv w) key"
  by (simp add: got_def redis_get_def executeCommand_eq reply_of_reliable lookup_def
      split: option.splits)

lemma got_absent: "kv w key = None \<Longrightarrow> got w key = None"
  using reply_of_cases [of w "GET key"]
  by (auto simp add: got_def redis_get_def executeCommand_eq)

lemma set_command:
  "(case t of None \<Rightarrow> SET k v None
    | Some n \<Rightarrow> if n = 0 then SET k v None else SET k v (Some n))
   = SET k v (if t = Some 0 then None else t)"
  by (simp split: option.splits)

lemma redis_set_eq:
  "redis_set w key v t =
     (Inr (reply_of w (SET key v (if t = Some 0 then None else t)) = Some (Str (Txt ''OK''))),
      after w (SET key v (if t = Some 0 then None else t)))"
  by (simp add: redis_set_def set_command executeCommand_eq Let_def split: option.splits)

lemma redis_setnx_eq:
  "redis_setnx w key v t =
     (Inr (reply_of w (SETNX key v t) = Some (Str (Txt ''OK''))), after w (SETNX key v t))"
  by (simp add: redis_setnx_def executeCommand_eq split: option.splits)

lemma redis_del_eq:
  "redis_del w key =
     (Inr (case reply_of w (DEL key) of Some (Num n) \<Rightarrow> n > 0 | _ \<Rightarrow> False),
      after w (DEL key))"
  by (simp add: redis_del_def executeCommand_eq split: option.splits reply.splits)

lemmas client_eqs = redis_get_eq redis_set_eq redis_setnx_eq redis_del_eq

lemma new_events_same [simp]: "new_events w w = []"
  by (simp add: new_events_def)

lemma new_events_trace: "trace w' = trace w @ es \<Longrightarrow> new_events w w' = es"
  by (simp add: new_events_def)

section \<open>Facts about the completion callback\<close>

lemmas hook_defs = handleWebhook_def respond_def await_def Let_def client_eqs

lemma hook_succeeded:
  assumes "reliable w" and "kv w (''prediction:'' @ w_id p) = Some (PredictionJson pd, t)"
    and "w_status p = StSucceeded" and "output_truthy (w_output p)"
  shows "fst (handleWebhook w (Inr p)) = AckStored"
    and "kv (snd (handleWebhook w (Inr p))) =
           (let entry = \<lparr>a_summary = trim (output_text (the (w_output p))),
                         a_headline = or_else (p_headline pd) ''Article Summary'',
                         a_model = ''google-deepmind/gemma-2b'',
                         a_generatedAt = clock w\<rparr>;
                s1 = (kv w)(''article:'' @ p_hash pd \<mapsto> (ArticleJson entry, Some 604800));
                s2 = (if truthy_opt (p_normalizedUrl pd)
                      then s1(''url:'' @ the (p_normalizedUrl pd)
                                \<mapsto> (Txt (p_hash pd), Some 604800))
                      else s1)
            in s2(''prediction:'' @ w_id p := None, ''lock:'' @ p_hash pd := None))"
    and "issued (new_events w (snd (handleWebhook w (Inr p)))) =
           [GET (''prediction:'' @ w_id p),
            SET (''article:'' @ p_hash pd)
              (ArticleJson \<lparr>a_summary = trim (output_text (the (w_output p))),
                             a_headline = or_else (p_headline pd) ''Article Summary'',
                             a_model = ''google-deepmind/gemma-2b'',
                             a_generatedAt = clock w\<rparr>)
              (Some 604800)]
           @ (if truthy_opt (p_normalizedUrl pd)
              then [SET (''url:'' @ the (p_normalizedUrl pd)) (Txt (p_hash pd)) (Some 604800)]
              else [])
           @ [DEL (''prediction:'' @ w_id p), DEL (''lock:'' @ p_hash pd)]"
    and "reliable (snd (handleWebhook w (Inr p)))"
  using assms
  by (simp_all add: hook_defs got_reliable lookup_def reply_of_reliable kv_after new_events_def)

lemma hook_failed:
  assumes "reliable w" and "kv w (''prediction:'' @ w_id p) = Some (PredictionJson pd, t)"
    and "w_status p = StFailed"
  shows "fst (handleWebhook w (Inr p)) = AckError (w_error p)"
    and "kv (snd (handleWebhook w (Inr p))) =
           (kv w)(''lock:'' @ p_hash pd := None, ''prediction:'' @ w_id p := None)"
    and "issued (new_events w (snd (handleWebhook w (Inr p)))) =
           [GET (''prediction:'' @ w_id p), DEL (''lock:'' @ p_hash pd),
            DEL (''prediction:'' @ w_id p)]"
    and "reliable (snd (handleWebhook w (Inr p)))"
  using assms
  by (simp_all add: hook_defs got_reliable lookup_def reply_of_reliable kv_after new_events_def)

lemma hook_unknown:
  assumes "kv w (''prediction:'' @ w_id p) = None"
  shows "fst (handleWebhook w (Inr p)) = AckWarning ''Unknown prediction ID''"
    and "kv (snd (handleWebhook w (Inr p))) = kv w"
    and "issued (new_events w (snd (handleWebhook w (Inr p)))) = [GET (''prediction:'' @ w_id p)]"
  using assms
  by (simp_all add: hook_defs got_absent new_events_def)

lemma lookup_Some: "lookup s k = Some v \<Longrightarrow> \<exists>t. s k = Some (v, t)"
  by (auto simp add: lookup_def split: option.splits if_splits)

lemma hook_succeeded_any:
  assumes "got w (''prediction:'' @ w_id p) = Some (PredictionJson pd)"
    and "w_status p = StSucceeded" and "output_truthy (w_output p)"
  shows "fst (handleWebhook w (Inr p)) = AckStored"
    and "issued (new_events w (snd (handleWebhook w (Inr p)))) =
           [GET (''prediction:'' @ w_id p),
            SET (''article:'' @ p_hash pd)
              (ArticleJson \<lparr>a_summary = trim (output_text (the (w_output p))),
                             a_headline = or_else (p_headline pd) ''Article Summary'',
                             a_model = ''google-deepmind/gemma-2b'',
                             a_generatedAt = clock w\<rparr>)
              (Some 604800)]
           @ (if truthy_opt (p_normalizedUrl pd)
              then [SET (''url:'' @ the (p_normalizedUrl pd)) (Txt (p_hash pd)) (Some 604800)]
              else [])
           @ [DEL (''prediction:'' @ w_id p), DEL (''lock:'' @ p_hash pd)]"
  using assms by (simp_all add: hook_defs new_events_def)

lemma hook_failed_any:
  assumes "got w (''prediction:'' @ w_id p) = Some (PredictionJson pd)"
    and "w_status p = StFailed"
  shows "fst (handleWebhook w (Inr p)) = AckError (w_error p)"
    and "issued (new_events w (snd (handleWebhook w (Inr p)))) =
           [GET (''prediction:'' @ w_id p), DEL (''lock:'' @ p_hash pd),
            DEL (''prediction:'' @ w_id p)]"
  using assms by (simp_all add: hook_defs new_events_def)

lemma job_world_facts:
  "reliable job_world"
  "kv job_world ''prediction:job1'' = Some (PredictionJson job_record, Some 3600)"
  "kv job_world ''lock:abc'' = Some (Txt ''1'', Some 60)"
  "kv job_world ''article:abc'' = None"
  "w_status (callback st out) = st"
  "w_output (callback st out) = out"
  "w_error (callback st out) = None"
  "w_id (callback st out) = ''job1''"
  "p_hash job_record = ''abc''"
  "lookup (kv job_world) ''lock:abc'' = Some (Txt ''1'')"
  "lookup (kv job_world) ''article:abc'' = None"
  "got job_world ''prediction:job1'' = Some (PredictionJson job_record)"
  by (simp_all add: got_reliable reliable_def job_world_def callback_def job_record_def
      lookup_def)

lemma empty_world_facts:
  "reliable empty_world"
  "kv empty_world k = None"
  "lookup (kv empty_world) k = None"
  by (simp_all add: reliable_def empty_world_def lookup_def)

lemmas example_defs = job_world_def job_record_def callback_def trim_def
  or_else_def truthy_def truthy_opt_def is_space_def newline_def

section \<open>The store client under transport failure\<close>

text \<open>
  C5 (as amended): when the transport fails during \<open>set\<close>, \<open>setnx\<close> or \<open>del\<close>, the client
  catches the error: the operation resolves to \<open>false\<close>, no error reaches the caller,
  and the store is as before.
\<close>

theorem client_write_failure_returns_false:
  assumes "net w = True # bs"
  shows "fst (redis_set w key v t) = Inr False \<and> kv (snd (redis_set w key v t)) = kv w
       \<and> fst (redis_setnx w key v n) = Inr False \<and> kv (snd (redis_setnx w key v n)) = kv w
       \<and> fst (redis_del w key) = Inr False \<and> kv (snd (redis_del w key)) = kv w"
  using assms by (simp add: client_eqs reply_of_failing kv_after)

theorem client_write_failure_returns_false_witness:
  "net failing_world = True # []
   \<and> fst (redis_set failing_world ''article:abc'' (Txt ''x'') (Some 604800)) = Inr False
   \<and> fst (redis_setnx failing_world ''lock:abc'' (Txt ''1'') 60) = Inr False
   \<and> fst (redis_del failing_world ''lock:abc'') = Inr False"
  using client_write_failure_returns_false
          [of failing_world "[]" "''article:abc''" "Txt ''x''" "Some 604800"]
        client_write_failure_returns_false
          [of failing_world "[]" "''lock:abc''" "Txt ''1''" "Some 60" 60]
  by (simp add: failing_world_def)

text \<open>
  C5 as stated fails: on a world whose next request fails, \<open>executeCommand\<close> throws, and
  yet each of the three operations resolves to \<open>false\<close> instead of rejecting.
\<close>

theorem client_write_failure_not_surfaced:
  "fst (executeCommand failing_world (SETNX ''lock:abc'' (Txt ''1'') 60)) = Inl transport_error
   \<and> fst (redis_setnx failing_world ''lock:abc'' (Txt ''1'') 60) = Inr False
   \<and> fst (redis_set failing_world ''article:abc'' (Txt ''x'') (Some 604800)) = Inr False
   \<and> fst (redis_del failing_world ''lock:abc'') = Inr False"
  by (simp add: failing_world_def client_eqs executeCommand_eq reply_of_failing)

section \<open>The completion callback\<close>

text \<open>
  C3: on a \<open>succeeded\<close> callback with output for a job whose prediction record the lookup
  finds, the handler sends, in this order, the write of the article summary (the output,
  a list joined with newlines, trimmed) under \<open>article:\<close> + hash for 604800 seconds, the
  write of the hash under \<open>url:\<close> + normalized URL for 604800 seconds when the record has a
  normalized URL, the deletion of the prediction record and the deletion of the lock, and
  answers \<open>stored: true\<close>; on a reliable transport the store ends with exactly these
  changes.
\<close>

theorem webhook_succeeded_stores_summary:
  assumes "got w (''prediction:'' @ w_id p) = Some (PredictionJson pd)"
    and "w_status p = StSucceeded" and "output_truthy (w_output p)"
  shows "fst (handleWebhook w (Inr p)) = AckStored
       \<and> issued (new_events w (snd (handleWebhook w (Inr p)))) =
           [GET (''prediction:'' @ w_id p),
            SET (''article:'' @ p_hash pd)
              (ArticleJson \<lparr>a_summary = trim (output_text (the (w_output p))),
                             a_headline = or_else (p_headline pd) ''Article Summary'',
                             a_model = ''google-deepmind/gemma-2b'',
                             a_generatedAt = clock w\<rparr>)
              (Some 604800)]
           @ (if truthy_opt (p_normalizedUrl pd)
              then [SET (''url:'' @ the (p_normalizedUrl pd)) (Txt (p_hash pd)) (Some 604800)]
              else [])
           @ [DEL (''prediction:'' @ w_id p), DEL (''lock:'' @ p_hash pd)]
       \<and> (reliable w \<longrightarrow>
            kv (snd (handleWebhook w (Inr p))) =
              (let entry = \<lparr>a_summary = trim (output_text (the (w_output p))),
                            a_headline = or_else (p_headline pd) ''Article Summary'',
                            a_model = ''google-deepmind/gemma-2b'',
                            a_generatedAt = clock w\<rparr>;
                   s1 = (kv w)(''article:'' @ p_hash pd \<mapsto> (ArticleJson entry, Some 604800));
                   s2 = (if truthy_opt (p_normalizedUrl pd)
                         then s1(''url:'' @ the (p_normalizedUrl pd)
                                   \<mapsto> (Txt (p_hash pd), Some 604800))
                         else s1)
               in s2(''prediction:'' @ w_id p := None, ''lock:'' @ p_hash pd := None)))"
proof -
  have "kv (snd (handleWebhook w (Inr p))) =
              (let entry = \<lparr>a_summary = trim (output_text (the (w_output p))),
                            a_headline = or_else (p_headline pd) ''Article Summary'',
                            a_model = ''google-deepmind/gemma-2b'',
                            a_generatedAt = clock w\<rparr>;
                   s1 = (kv w)(''article:'' @ p_hash pd \<mapsto> (ArticleJson entry, Some 604800));
                   s2 = (if truthy_opt (p_normalizedUrl pd)
                         then s1(''url:'' @ the (p_normalizedUrl pd)
                                   \<mapsto> (Txt (p_hash pd), Some 604800))
                         else s1)
               in s2(''prediction:'' @ w_id p := None, ''lock:'' @ p_hash pd := None))"
    if r: "reliable w"
  proof -
    obtain t where "kv w (''prediction:'' @ w_id p) = Some (PredictionJson pd, t)"
      using assms(1) lookup_Some by (fastforce simp add: got_reliable [OF r])
    then show ?thesis by (rule hook_succeeded(2) [OF r _ assms(2,3)])
  qed
  then show ?thesis using hook_succeeded_any [OF assms] by simp
qed

theorem webhook_succeeded_stores_summary_witness:
  "got job_world ''prediction:job1'' = Some (PredictionJson job_record)
   \<and> reliable job_world
   \<and> fst (handleWebhook job_world (Inr (callback StSucceeded (Some (OutList [''a'', ''b'']))))) =
       AckStored
   \<and> issued (new_events job_world
        (snd (handleWebhook job_world (Inr (callback StSucceeded (Some (OutList [''a'', ''b''])))))))
       = [GET ''prediction:job1'',
          SET ''article:abc''
            (ArticleJson \<lparr>a_summary = ''a'' @ newline @ ''b'', a_headline = ''H'',
                           a_model = ''google-deepmind/gemma-2b'',
                           a_generatedAt = 1700000000000\<rparr>)
            (Some 604800),
          SET ''url:https://example.com/a'' (Txt ''abc'') (Some 604800),
          DEL ''prediction:job1'', DEL ''lock:abc'']
   \<and> kv (snd (handleWebhook job_world (Inr (callback StSucceeded (Some (OutList [''a'', ''b''])))))) 
        ''lock:abc'' = None"
  using webhook_succeeded_stores_summary
          [of job_world "callback StSucceeded (Some (OutList [''a'', ''b'']))" job_record]
  by (simp add: job_world_facts) (simp add: example_defs)

text \<open>
  C6: a callback for a job whose prediction record is absent is answered with the warning
  and changes nothing in the store (the only command sent is the lookup). In particular,
  after a first callback that consumed the record (a \<open>succeeded\<close> one with output, or a
  \<open>failed\<close> one, on a reliable transport), a second callback for the same job is
  answered with the warning, not with an error, and leaves the store, hence the stored
  article summary, as it was.
\<close>

theorem webhook_unknown_job_is_noop:
  "(kv w (''prediction:'' @ w_id p) = None \<longrightarrow>
      fst (handleWebhook w (Inr p)) = AckWarning ''Unknown prediction ID''
      \<and> kv (snd (handleWebhook w (Inr p))) = kv w
      \<and> issued (new_events w (snd (handleWebhook w (Inr p)))) = [GET (''prediction:'' @ w_id p)])
   \<and> (reliable w \<and> kv w (''prediction:'' @ w_id p) = Some (PredictionJson pd, t)
       \<and> (w_status p = StFailed \<or> w_status p = StSucceeded \<and> output_truthy (w_output p))
       \<and> w_id p' = w_id p \<longrightarrow>
      fst (handleWebhook (snd (handleWebhook w (Inr p))) (Inr p')) =
        AckWarning ''Unknown prediction ID''
      \<and> kv (snd (handleWebhook (snd (handleWebhook w (Inr p))) (Inr p'))) =
          kv (snd (handleWebhook w (Inr p))))"
proof (intro conjI impI)
  assume "kv w (''prediction:'' @ w_id p) = None"
  then show "fst (handleWebhook w (Inr p)) = AckWarning ''Unknown prediction ID''"
    and "kv (snd (handleWebhook w (Inr p))) = kv w"
    and "issued (new_events w (snd (handleWebhook w (Inr p)))) = [GET (''prediction:'' @ w_id p)]"
    by (rule hook_unknown)+
next
  assume a: "reliable w \<and> kv w (''prediction:'' @ w_id p) = Some (PredictionJson pd, t)
       \<and> (w_status p = StFailed \<or> w_status p = StSucceeded \<and> output_truthy (w_output p))
       \<and> w_id p' = w_id p"
  have gone: "kv (snd (handleWebhook w (Inr p))) (''prediction:'' @ w_id p') = None"
  proof (cases "w_status p = StFailed")
    case True
    with a show ?thesis by (simp add: hook_failed(2))
  next
    case False
    with a have "w_status p = StSucceeded" "output_truthy (w_output p)" by auto
    with a show ?thesis by (simp add: hook_succeeded(2) Let_def)
  qed
  show "fst (handleWebhook (snd (handleWebhook w (Inr p))) (Inr p')) =
          AckWarning ''Unknown prediction ID''"
    using gone by (rule hook_unknown(1))
  show "kv (snd (handleWebhook (snd (handleWebhook w (Inr p))) (Inr p'))) =
          kv (snd (handleWebhook w (Inr p)))"
    using gone by (rule hook_unknown(2))
qed

theorem webhook_unknown_job_is_noop_witness:
  "kv empty_world ''prediction:job1'' = None
   \<and> fst (handleWebhook empty_world (Inr (callback StSucceeded (Some (OutText ''Result text''))))) =
       AckWarning ''Unknown prediction ID''
   \<and> kv (snd (handleWebhook empty_world (Inr (callback StSucceeded (Some (OutText ''Result text''))))))
       = kv empty_world
   \<and> reliable job_world
   \<and> kv job_world ''prediction:job1'' = Some (PredictionJson job_record, Some 3600)
   \<and> fst (handleWebhook
            (snd (handleWebhook job_world (Inr (callback StSucceeded (Some (OutText ''Result text''))))))
            (Inr (callback StSucceeded (Some (OutText ''Result text''))))) =
       AckWarning ''Unknown prediction ID''
   \<and> kv (snd (handleWebhook
            (snd (handleWebhook job_world (Inr (callback StSucceeded (Some (OutText ''Result text''))))))
            (Inr (callback StSucceeded (Some (OutText ''Result text''))))))
       = kv (snd (handleWebhook job_world (Inr (callback StSucceeded (Some (OutText ''Result text''))))))"
  using webhook_unknown_job_is_noop
          [of empty_world "callback StSucceeded (Some (OutText ''Result text''))"]
        webhook_unknown_job_is_noop
          [of job_world "callback StSucceeded (Some (OutText ''Result text''))"
              job_record "Some 3600" "callback StSucceeded (Some (OutText ''Result text''))"]
  by (simp add: job_world_facts empty_world_facts truthy_def)

text \<open>
  C7: on a \<open>failed\<close> callback for a job whose prediction record the lookup finds, the
  handler sends the deletion of the lock and the deletion of the prediction record and
  answers with an acknowledgement that carries the provider's error (not with a server
  error); on a reliable transport both keys are then absent, nothing else has changed,
  and the next conditional set on the lock key acquires it.
\<close>

theorem webhook_failed_releases_lock:
  assumes "got w (''prediction:'' @ w_id p) = Some (PredictionJson pd)"
    and "w_status p = StFailed"
  shows "fst (handleWebhook w (Inr p)) = AckError (w_error p)
       \<and> issued (new_events w (snd (handleWebhook w (Inr p)))) =
           [GET (''prediction:'' @ w_id p), DEL (''lock:'' @ p_hash pd),
            DEL (''prediction:'' @ w_id p)]
       \<and> (reliable w \<longrightarrow>
            kv (snd (handleWebhook w (Inr p))) =
              (kv w)(''lock:'' @ p_hash pd := None, ''prediction:'' @ w_id p := None)
            \<and> kv (snd (handleWebhook w (Inr p))) (''lock:'' @ p_hash pd) = None
            \<and> kv (snd (handleWebhook w (Inr p))) (''prediction:'' @ w_id p) = None
            \<and> fst (redis_setnx (snd (handleWebhook w (Inr p))) (''lock:'' @ p_hash pd)
                     (Txt ''1'') 60) = Inr True)"
proof -
  have "kv (snd (handleWebhook w (Inr p))) =
              (kv w)(''lock:'' @ p_hash pd := None, ''prediction:'' @ w_id p := None)
            \<and> kv (snd (handleWebhook w (Inr p))) (''lock:'' @ p_hash pd) = None
            \<and> kv (snd (handleWebhook w (Inr p))) (''prediction:'' @ w_id p) = None
            \<and> fst (redis_setnx (snd (handleWebhook w (Inr p))) (''lock:'' @ p_hash pd)
                     (Txt ''1'') 60) = Inr True"
    if r: "reliable w"
  proof -
    obtain t where k: "kv w (''prediction:'' @ w_id p) = Some (PredictionJson pd, t)"
      using assms(1) lookup_Some by (fastforce simp add: got_reliable [OF r])
    note f = hook_failed [OF r k assms(2)]
    have free: "kv (snd (handleWebhook w (Inr p))) (''lock:'' @ p_hash pd) = None"
      by (simp add: f(2))
    have "reply_of (snd (handleWebhook w (Inr p))) (SETNX (''lock:'' @ p_hash pd) (Txt ''1'') 60)
            = Some (Str (Txt ''OK''))"
      using free by (simp add: reply_of_reliable [OF f(4)])
    then show ?thesis using f(2) free by (simp add: redis_setnx_eq)
  qed
  then show ?thesis using hook_failed_any [OF assms] by simp
qed

theorem webhook_failed_releases_lock_witness:
  "got job_world ''prediction:job1'' = Some (PredictionJson job_record)
   \<and> reliable job_world
   \<and> kv job_world ''lock:abc'' = Some (Txt ''1'', Some 60)
   \<and> fst (handleWebhook job_world (Inr (callback StFailed None))) = AckError None
   \<and> kv (snd (handleWebhook job_world (Inr (callback StFailed None)))) ''lock:abc'' = None
   \<and> kv (snd (handleWebhook job_world (Inr (callback StFailed None)))) ''prediction:job1'' = None
   \<and> fst (redis_setnx (snd (handleWebhook job_world (Inr (callback StFailed None))))
            ''lock:abc'' (Txt ''1'') 60) = Inr True"
  using webhook_failed_releases_lock [of job_world "callback StFailed None" job_record]
  by (simp add: job_world_facts)

text \<open>
  C10 (as amended): a \<open>succeeded\<close> callback whose output is absent or the empty string
  leaves the store unchanged: the only command sent is the lookup of the prediction
  record, so neither that record nor the lock is deleted and nothing is written.
\<close>

theorem webhook_succeeded_without_output_is_noop:
  assumes "w_status p = StSucceeded" and "w_output p = None \<or> w_output p = Some (OutText [])"
  shows "kv (snd (handleWebhook w (Inr p))) = kv w
       \<and> issued (new_events w (snd (handleWebhook w (Inr p)))) = [GET (''prediction:'' @ w_id p)]"
  using assms
  by (auto simp add: hook_defs truthy_def new_events_def split: option.splits)

theorem webhook_succeeded_without_output_is_noop_witness:
  "w_status (callback StSucceeded None) = StSucceeded
   \<and> w_output (callback StSucceeded None) = None
   \<and> kv (snd (handleWebhook job_world (Inr (callback StSucceeded None)))) = kv job_world
   \<and> kv (snd (handleWebhook job_world (Inr (callback StSucceeded None)))) ''lock:abc''
       = Some (Txt ''1'', Some 60)
   \<and> issued (new_events job_world (snd (handleWebhook job_world (Inr (callback StSucceeded None)))))
       = [GET ''prediction:job1'']"
  using webhook_succeeded_without_output_is_noop [of "callback StSucceeded None" job_world]
  by (simp add: job_world_facts)

text \<open>
  C10 as stated fails for an output that is the empty list: the list is truthy, so the
  handler stores an article summary with an empty text and deletes the lock.
\<close>

theorem webhook_succeeded_empty_list_writes:
  "kv job_world ''article:abc'' = None
   \<and> kv (snd (handleWebhook job_world (Inr (callback StSucceeded (Some (OutList []))))))
        ''article:abc''
       = Some (ArticleJson \<lparr>a_summary = [], a_headline = ''H'',
                             a_model = ''google-deepmind/gemma-2b'',
                             a_generatedAt = 1700000000000\<rparr>, Some 604800)
   \<and> kv job_world ''lock:abc'' = Some (Txt ''1'', Some 60)
   \<and> kv (snd (handleWebhook job_world (Inr (callback StSucceeded (Some (OutList []))))))
        ''lock:abc'' = None"
proof -
  have k: "kv (snd (handleWebhook job_world (Inr (callback StSucceeded (Some (OutList []))))))
      = (kv job_world)
          (''article:abc'' \<mapsto> (ArticleJson \<lparr>a_summary = [], a_headline = ''H'',
                             a_model = ''google-deepmind/gemma-2b'',
                             a_generatedAt = 1700000000000\<rparr>, Some 604800),
           ''url:https://example.com/a'' \<mapsto> (Txt ''abc'', Some 604800),
           ''prediction:job1'' := None, ''lock:abc'' := None)"
    by (subst hook_succeeded(2) [where pd = job_record and t = "Some 3600"])
       (simp_all add: job_world_facts, simp_all add: example_defs)
  show ?thesis unfolding k by (simp add: job_world_def)
qed

section \<open>Fetch\<close>

lemmas fetch_defs = handleFetchSummary_def respond_def await_def Let_def client_eqs
  complete_response_def

lemma lookup_truthy: "lookup s k = Some v \<Longrightarrow> sval_truthy v"
  by (auto simp add: lookup_def split: option.splits if_splits)

text \<open>
  C8: for a fetch query with a URL or a hash, on a reliable transport. The fingerprint is
  the hash parameter when one is given, and otherwise what the URL index holds for the
  normalized URL. When there is none the answer is \<open>unknown\<close>; else when the store holds an
  article summary for it the answer is \<open>complete\<close> with the summary's data; else when the
  store holds a lock for it the answer is \<open>pending\<close>; else the answer is \<open>unknown\<close>. The
  store is only read.
\<close>

theorem fetch_case_order:
  assumes "reliable w" and "truthy_opt (q_url q) \<or> truthy_opt (q_hash q)"
  shows
    "(let resolved =
        (if truthy_opt (q_hash q) then q_hash q
         else map_option sval_text (lookup (kv w) (''url:'' @ normalizeUrl P (the (q_url q)))))
      in (\<not> truthy_opt resolved \<longrightarrow> fst (handleFetchSummary P w q) = Unknown None)
       \<and> (\<forall>h a. resolved = Some h \<and> truthy h
              \<and> lookup (kv w) (''article:'' @ h) = Some (ArticleJson a) \<longrightarrow>
            fst (handleFetchSummary P w q) =
              Complete (a_summary a) (a_headline a) (a_generatedAt a) h)
       \<and> (\<forall>h l. resolved = Some h \<and> truthy h
              \<and> lookup (kv w) (''article:'' @ h) = None
              \<and> lookup (kv w) (''lock:'' @ h) = Some l \<longrightarrow>
            fst (handleFetchSummary P w q) = Pending h)
       \<and> (\<forall>h. resolved = Some h \<and> truthy h
              \<and> lookup (kv w) (''article:'' @ h) = None
              \<and> lookup (kv w) (''lock:'' @ h) = None \<longrightarrow>
            fst (handleFetchSummary P w q) = Unknown (Some h)))
     \<and> kv (snd (handleFetchSummary P w q)) = kv w"
proof (cases "truthy_opt (q_hash q)")
  case True
  then show ?thesis using assms
    by (auto simp add: fetch_defs got_reliable truthy_opt_def split: option.splits)
next
  case False
  with assms have u: "truthy_opt (q_url q)" by simp
  show ?thesis
  proof (cases "lookup (kv w) (''url:'' @ normalizeUrl P (the (q_url q)))")
    case None
    with False u assms(1) show ?thesis
      by (simp add: fetch_defs got_reliable truthy_opt_def)
  next
    case (Some v)
    then have "truthy (sval_text v)" using lookup_truthy [OF Some] by (simp add: sval_truthy_def)
    with Some False u assms(1) show ?thesis
      by (auto simp add: fetch_defs got_reliable truthy_opt_def split: option.splits)
  qed
qed

lemma cached_world_facts:
  "reliable cached_world"
  "lookup (kv cached_world) ''url:https://example.com/a'' = Some (Txt ''abc'')"
  "lookup (kv cached_world) ''article:abc'' =
     Some (ArticleJson \<lparr>a_summary = ''Result text'', a_headline = ''H'',
                         a_model = ''google-deepmind/gemma-2b'',
                         a_generatedAt = 1700000000000\<rparr>)"
  by (simp_all add: reliable_def cached_world_def lookup_def)

lemma example_normalizeUrl:
  "normalizeUrl example_platform ''https://m.example.com/a?utm_source=x'' = ''https://example.com/a''"
  "normalizeUrl example_platform ''https://example.com/mobile/a'' = ''https://example.com/mobile/a''"
  by (simp_all add: normalizeUrl_def example_platform_def example_parse_def example_toString_def
      normalize_parts_def Let_def set_hostname_def toLowerCase_def lower_char_def
      trackingParams_def searchParams_delete_def endsWith_def mobilePatterns_def
      replace_prefix_def)

theorem fetch_case_order_witness:
  "reliable cached_world
   \<and> truthy_opt (Some ''https://m.example.com/a?utm_source=x'')
   \<and> fst (handleFetchSummary example_platform cached_world
            \<lparr>q_url = Some ''https://m.example.com/a?utm_source=x'', q_hash = None\<rparr>) =
       Complete ''Result text'' ''H'' 1700000000000 ''abc''
   \<and> fst (handleFetchSummary example_platform job_world \<lparr>q_url = None, q_hash = Some ''abc''\<rparr>) =
       Pending ''abc''
   \<and> fst (handleFetchSummary example_platform empty_world \<lparr>q_url = None, q_hash = Some ''abc''\<rparr>) =
       Unknown (Some ''abc'')
   \<and> fst (handleFetchSummary example_platform empty_world
            \<lparr>q_url = Some ''https://m.example.com/a?utm_source=x'', q_hash = None\<rparr>) =
       Unknown None"
  using fetch_case_order [of cached_world
          "\<lparr>q_url = Some ''https://m.example.com/a?utm_source=x'', q_hash = None\<rparr>"
          example_platform]
        fetch_case_order [of job_world "\<lparr>q_url = None, q_hash = Some ''abc''\<rparr>" example_platform]
        fetch_case_order [of empty_world "\<lparr>q_url = None, q_hash = Some ''abc''\<rparr>" example_platform]
        fetch_case_order [of empty_world
          "\<lparr>q_url = Some ''https://m.example.com/a?utm_source=x'', q_hash = None\<rparr>"
          example_platform]
  by (simp add: cached_world_facts job_world_facts empty_world_facts example_normalizeUrl
      truthy_opt_def truthy_def Let_def)

section \<open>Generate\<close>

lemma fst_respond: "fst (respond m) = (case fst m of Inl e \<Rightarrow> InternalError e | Inr r \<Rightarrow> r)"
  by (simp add: respond_def split: prod.splits sum.splits)

lemma snd_respond [simp]: "snd (respond m) = snd m"
  by (simp add: respond_def split: prod.splits sum.splits)

lemma guarded_True [simp]: "guarded c True es"
proof (induction es)
  case Nil
  show ?case by simp
next
  case (Cons e es)
  then show ?case by (cases e) simp_all
qed

text \<open>A prefix of lookups changes none of the properties of a trace that C1 is about.\<close>

lemma lookups_prefix:
  assumes "\<forall>e \<in> set pre. \<exists>k r. e = StoreCall (GET k) r" and "lock = SETNX lk v n"
  shows "guarded lock acq (pre @ es) = guarded lock acq es"
    and "provider_calls (pre @ es) = provider_calls es"
    and "StoreCall (SETNX k' v' n') r' \<notin> set pre"
    and "StoreCall lock r' \<notin> set pre"
  using assms by (induction pre) auto

lemma locked_run:
  "\<exists>es. trace (snd (generate_locked P w body n)) = trace w @ es
        \<and> (\<forall>k v t r. StoreCall (SETNX k v t) r \<notin> set es)"
  by (auto simp add: generate_locked_def release_on_error_def createPrediction_def await_def
      Let_def client_eqs split: sum.splits)

lemma steps_run:
  assumes lock: "lock = SETNX (''lock:'' @ hash_of P body n) (Txt ''1'') 60"
  shows "\<exists>es. trace (snd (generate_steps P w body n)) = trace w @ es
        \<and> guarded lock False es
        \<and> (\<forall>k v t r. StoreCall (SETNX k v t) r \<in> set es \<longrightarrow> SETNX k v t = lock)
        \<and> (\<forall>r. StoreCall lock r \<in> set es \<and> r \<noteq> Some (Str (Txt ''OK'')) \<longrightarrow>
              fst (generate_steps P w body n) = Inr (Pending (hash_of P body n))
              \<and> provider_calls es = [])"
proof (cases "got w (''article:'' @ hash_of P body n)")
  case (Some c)
  then show ?thesis
    by (cases "parse_article c")
       (simp_all add: generate_steps_def await_def Let_def client_eqs lock)
next
  case None
  define g where "g = GET (''article:'' @ hash_of P body n)"
  define w1 where "w1 = after w g"
  define w2 where "w2 = after w1 lock"
  show ?thesis
  proof (cases "reply_of w1 lock = Some (Str (Txt ''OK''))")
    case False
    have "trace (snd (generate_steps P w body n)) =
            trace w @ [StoreCall g (reply_of w g), StoreCall lock (reply_of w1 lock)]"
      and "fst (generate_steps P w body n) = Inr (Pending (hash_of P body n))"
      using None False
      by (simp_all add: generate_steps_def await_def Let_def client_eqs lock g_def w1_def)
    then show ?thesis using False
      by (intro exI [of _ "[StoreCall g (reply_of w g), StoreCall lock (reply_of w1 lock)]"])
         (auto simp add: g_def lock)
  next
    case True
    obtain es' where es': "trace (snd (generate_locked P w2 body n)) = trace w2 @ es'"
      and nolock: "\<forall>k v t r. StoreCall (SETNX k v t) r \<notin> set es'"
      using locked_run [of P w2 body n] by blast
    have run: "generate_steps P w body n = generate_locked P w2 body n"
      using None True
      by (simp add: generate_steps_def await_def Let_def client_eqs lock g_def w1_def w2_def)
    have t2: "trace w2 = trace w @ [StoreCall g (reply_of w g), StoreCall lock (Some (Str (Txt ''OK'')))]"
      using True by (simp add: w2_def w1_def)
    have tr: "trace (snd (generate_steps P w body n)) =
                trace w @ ([StoreCall g (reply_of w g), StoreCall lock (Some (Str (Txt ''OK'')))] @ es')"
      by (simp add: run es' t2)
    have "guarded lock False ([StoreCall g (reply_of w g), StoreCall lock (Some (Str (Txt ''OK'')))] @ es')"
      by (simp add: g_def lock)
    moreover have "\<forall>k v t r. StoreCall (SETNX k v t) r
                     \<in> set ([StoreCall g (reply_of w g), StoreCall lock (Some (Str (Txt ''OK'')))] @ es')
                   \<longrightarrow> SETNX k v t = lock"
      using nolock by (auto simp add: g_def)
    moreover have "\<forall>r. StoreCall lock r
                     \<in> set ([StoreCall g (reply_of w g), StoreCall lock (Some (Str (Txt ''OK'')))] @ es')
                   \<longrightarrow> r = Some (Str (Txt ''OK''))"
      using nolock by (auto simp add: g_def lock)
    ultimately show ?thesis using tr by blast
  qed
qed

text \<open>
  C1: in a run of generate, every call to the provider comes after the conditional set of
  \<open>1\<close> on \<open>lock:\<close> + hash with 60 seconds that the store answered with \<open>OK\<close>; it is the
  only conditional set of the run; and when its answer is anything else (the key exists,
  or the request failed), the response is \<open>pending\<close> with the hash and the provider is
  not called.
\<close>

theorem generate_provider_only_under_lock:
  "(let h = hash_of P body (normalizeUrl P (the (b_url body)));
        lock = SETNX (''lock:'' @ h) (Txt ''1'') 60;
        es = new_events w (snd (handleGenerateSummary P w (Inr body)))
    in guarded lock False es
       \<and> (\<forall>k v t r. StoreCall (SETNX k v t) r \<in> set es \<longrightarrow> SETNX k v t = lock)
       \<and> (\<forall>r. StoreCall lock r \<in> set es \<and> r \<noteq> Some (Str (Txt ''OK'')) \<longrightarrow>
             fst (handleGenerateSummary P w (Inr body)) = Pending h \<and> provider_calls es = []))"
proof -
  define n where "n = normalizeUrl P (the (b_url body))"
  define h where "h = hash_of P body n"
  define lock where "lock = SETNX (''lock:'' @ h) (Txt ''1'') 60"
  define run where "run = handleGenerateSummary P w (Inr body)"
  define g where "g = GET (''url:'' @ n)"
  let ?goal = "guarded lock False (new_events w (snd run))
       \<and> (\<forall>k v t r. StoreCall (SETNX k v t) r \<in> set (new_events w (snd run)) \<longrightarrow> SETNX k v t = lock)
       \<and> (\<forall>r. StoreCall lock r \<in> set (new_events w (snd run)) \<and> r \<noteq> Some (Str (Txt ''OK'')) \<longrightarrow>
             fst run = Pending h \<and> provider_calls (new_events w (snd run)) = [])"
  have steps: ?goal
    if t: "trace w0 = trace w @ pre" and gets: "\<forall>e \<in> set pre. \<exists>k r. e = StoreCall (GET k) r"
      and r: "run = respond (generate_steps P w0 body n)" for w0 pre
  proof -
    obtain es where es: "trace (snd (generate_steps P w0 body n)) = trace w0 @ es"
      and gd: "guarded lock False es"
      and only: "\<forall>k v t r. StoreCall (SETNX k v t) r \<in> set es \<longrightarrow> SETNX k v t = lock"
      and pend: "\<forall>r. StoreCall lock r \<in> set es \<and> r \<noteq> Some (Str (Txt ''OK'')) \<longrightarrow>
              fst (generate_steps P w0 body n) = Inr (Pending h) \<and> provider_calls es = []"
      using steps_run [of lock P body n w0] unfolding lock_def h_def by blast
    have ne: "new_events w (snd run) = pre @ es"
      by (simp add: r es t new_events_def)
    note pf = lookups_prefix [OF gets lock_def]
    have "fst run = Pending h" if "fst (generate_steps P w0 body n) = Inr (Pending h)"
      using that by (simp add: r fst_respond)
    then show ?goal
      unfolding ne using gd only pend pf(3,4) by (auto simp add: pf(1,2))
  qed
  have quiet: ?goal
    if ne: "new_events w (snd run) = pre" and gets: "\<forall>e \<in> set pre. \<exists>k r. e = StoreCall (GET k) r"
    for pre
  proof -
    note pf = lookups_prefix [OF gets lock_def]
    show ?goal unfolding ne using pf(1) [of False "[]"] pf(2) [of "[]"] pf(3,4) by auto
  qed
  have main: ?goal
  proof (cases "truthy_opt (b_url body)")
    case False
    then show ?thesis
      by (intro quiet [of "[]"]) (simp_all add: run_def handleGenerateSummary_def)
  next
    case url: True
    show ?thesis
    proof (cases "got w (''url:'' @ n)")
      case None
      with url show ?thesis
        by (intro steps [of "after w g" "[StoreCall g (reply_of w g)]"])
           (simp_all add: run_def g_def n_def handleGenerateSummary_def await_def Let_def client_eqs)
    next
      case (Some x)
      define a where "a = GET (''article:'' @ sval_text x)"
      show ?thesis
      proof (cases "got (after w g) (''article:'' @ sval_text x)")
        case None
        with url Some show ?thesis
          by (intro steps [of "after (after w g) a"
                 "[StoreCall g (reply_of w g), StoreCall a (reply_of (after w g) a)]"])
             (simp_all add: run_def g_def a_def n_def handleGenerateSummary_def await_def Let_def
                client_eqs)
      next
        case c: (Some c)
        with url Some show ?thesis
          by (intro quiet [of "[StoreCall g (reply_of w g), StoreCall a (reply_of (after w g) a)]"])
             (simp_all add: run_def g_def a_def n_def handleGenerateSummary_def await_def Let_def
                client_eqs new_events_def split: option.splits)
      qed
    qed
  qed
  then show ?thesis
    unfolding Let_def run_def lock_def h_def n_def .
qed

lemma issued_append [simp]: "issued (xs @ ys) = issued xs @ issued ys"
proof (induction xs)
  case Nil
  show ?case by simp
next
  case (Cons e xs)
  then show ?case by (cases e) simp_all
qed

lemma locked_empty:
  assumes "trim (text_of P body n) = []"
  shows "generate_locked P w body n =
           (Inr (BadRequest ''No content available for summarization''),
            after w (DEL (''lock:'' @ hash_of P body n)))"
  using assms
  by (simp add: generate_locked_def release_on_error_def await_def Let_def client_eqs)

lemma steps_empty:
  assumes empty: "trim (text_of P body n) = []"
    and lk: "lk = ''lock:'' @ hash_of P body n"
    and lock: "lock = SETNX lk (Txt ''1'') 60"
  shows "\<exists>es. trace (snd (generate_steps P w body n)) = trace w @ es
        \<and> provider_calls es = []
        \<and> (StoreCall lock (Some (Str (Txt ''OK''))) \<in> set es \<longrightarrow>
             fst (generate_steps P w body n) =
               Inr (BadRequest ''No content available for summarization'')
             \<and> issued es \<noteq> []
             \<and> last (issued es) = DEL lk)
        \<and> (reliable w \<longrightarrow> kv (snd (generate_steps P w body n)) lk = kv w lk)"
proof (cases "got w (''article:'' @ hash_of P body n)")
  case (Some c)
  then show ?thesis
    by (cases "parse_article c")
       (simp_all add: generate_steps_def await_def Let_def client_eqs lock lk kv_after
          reply_of_reliable)
next
  case None
  define g where "g = GET (''article:'' @ hash_of P body n)"
  define w1 where "w1 = after w g"
  define d where "d = DEL lk"
  have w1: "kv w1 = kv w" "reliable w \<Longrightarrow> reliable w1"
    by (simp_all add: w1_def g_def)
  show ?thesis
  proof (cases "reply_of w1 lock = Some (Str (Txt ''OK''))")
    case False
    have tr: "trace (snd (generate_steps P w body n)) =
            trace w @ [StoreCall g (reply_of w g), StoreCall lock (reply_of w1 lock)]"
      using None False
      by (simp add: generate_steps_def await_def Let_def client_eqs lock lk g_def w1_def)
    have kept: "kv (snd (generate_steps P w body n)) lk = kv w lk" if "reliable w"
      using None False reply_of_reliable [OF w1(2) [OF that], of lock] w1(1)
      by (auto simp add: generate_steps_def await_def Let_def client_eqs lock lk g_def w1_def
            kv_after split: option.splits)
    have "provider_calls [StoreCall g (reply_of w g), StoreCall lock (reply_of w1 lock)] = []"
      by simp
    moreover have "StoreCall lock (Some (Str (Txt ''OK'')))
                     \<notin> set [StoreCall g (reply_of w g), StoreCall lock (reply_of w1 lock)]"
      using False by (auto simp add: g_def lock)
    ultimately show ?thesis using tr kept by blast
  next
    case True
    define w2 where "w2 = after w1 lock"
    have run: "generate_steps P w body n =
                 (Inr (BadRequest ''No content available for summarization''), after w2 d)"
      using None True
      by (simp add: generate_steps_def await_def Let_def client_eqs lock lk g_def w1_def w2_def
            d_def locked_empty [OF empty])
    have tr: "trace (snd (generate_steps P w body n)) =
                trace w @ [StoreCall g (reply_of w g), StoreCall lock (Some (Str (Txt ''OK''))),
                           StoreCall d (reply_of w2 d)]"
      using True by (simp add: run w2_def w1_def)
    have res: "fst (generate_steps P w body n) =
                 Inr (BadRequest ''No content available for summarization'')"
      by (simp add: run)
    have free: "kv w lk = None" if "reliable w"
      using True reply_of_reliable [OF w1(2) [OF that], of lock]
      by (simp add: lock w1 split: option.splits)
    have gone: "kv (snd (generate_steps P w body n)) lk = None" if "reliable w"
    proof -
      have "reliable w2" using w1(2) [OF that] by (simp add: w2_def)
      then show ?thesis by (simp add: run kv_after reply_of_reliable d_def)
    qed
    have "provider_calls [StoreCall g (reply_of w g), StoreCall lock (Some (Str (Txt ''OK''))),
                           StoreCall d (reply_of w2 d)] = []"
      by simp
    moreover have "issued [StoreCall g (reply_of w g), StoreCall lock (Some (Str (Txt ''OK''))),
                           StoreCall d (reply_of w2 d)] \<noteq> []"
      and "last (issued [StoreCall g (reply_of w g), StoreCall lock (Some (Str (Txt ''OK''))),
                           StoreCall d (reply_of w2 d)]) = DEL lk"
      by (simp_all add: d_def)
    moreover have "reliable w \<longrightarrow> kv (snd (generate_steps P w body n)) lk = kv w lk"
      using free gone by simp
    ultimately show ?thesis using tr res by blast
  qed
qed

text \<open>
  C2 (as amended): when the text resolved for the request is empty or white space only,
  a run of generate never calls the provider. The conditional set on the lock is sent
  before the text is looked at; when the store answers it with \<open>OK\<close>, the handler deletes
  the lock again (it is the last command of the run) and returns the validation error;
  and on a reliable transport the lock key is left as it was found.
\<close>

theorem generate_empty_text_no_provider:
  assumes "trim (text_of P body (normalizeUrl P (the (b_url body)))) = []"
  shows
    "(let h = hash_of P body (normalizeUrl P (the (b_url body)));
          lock = SETNX (''lock:'' @ h) (Txt ''1'') 60;
          es = new_events w (snd (handleGenerateSummary P w (Inr body)))
      in provider_calls es = []
         \<and> (StoreCall lock (Some (Str (Txt ''OK''))) \<in> set es \<longrightarrow>
              fst (handleGenerateSummary P w (Inr body)) =
                BadRequest ''No content available for summarization''
              \<and> last (issued es) = DEL (''lock:'' @ h))
         \<and> (reliable w \<longrightarrow>
              kv (snd (handleGenerateSummary P w (Inr body))) (''lock:'' @ h) =
                kv w (''lock:'' @ h)))"
proof -
  define n where "n = normalizeUrl P (the (b_url body))"
  define h where "h = hash_of P body n"
  define lk where "lk = ''lock:'' @ h"
  define lock where "lock = SETNX lk (Txt ''1'') 60"
  define run where "run = handleGenerateSummary P w (Inr body)"
  define g where "g = GET (''url:'' @ n)"
  have empty: "trim (text_of P body n) = []"
    using assms by (simp add: n_def)
  have lk': "lk = ''lock:'' @ hash_of P body n"
    by (simp add: lk_def h_def)
  let ?goal = "provider_calls (new_events w (snd run)) = []
         \<and> (StoreCall lock (Some (Str (Txt ''OK''))) \<in> set (new_events w (snd run)) \<longrightarrow>
              fst run = BadRequest ''No content available for summarization''
              \<and> last (issued (new_events w (snd run))) = DEL lk)
         \<and> (reliable w \<longrightarrow> kv (snd run) lk = kv w lk)"
  have steps: ?goal
    if t: "trace w0 = trace w @ pre" and gets: "\<forall>e \<in> set pre. \<exists>k r. e = StoreCall (GET k) r"
      and r: "run = respond (generate_steps P w0 body n)"
      and k: "kv w0 = kv w" and rel: "reliable w \<Longrightarrow> reliable w0" for w0 pre
  proof -
    obtain es where es: "trace (snd (generate_steps P w0 body n)) = trace w0 @ es"
      and np: "provider_calls es = []"
      and acq: "StoreCall lock (Some (Str (Txt ''OK''))) \<in> set es \<longrightarrow>
             fst (generate_steps P w0 body n) =
               Inr (BadRequest ''No content available for summarization'')
             \<and> issued es \<noteq> [] \<and> last (issued es) = DEL lk"
      and left: "reliable w0 \<longrightarrow> kv (snd (generate_steps P w0 body n)) lk = kv w0 lk"
      using steps_empty [OF empty lk' lock_def, of w0] by blast
    have ne: "new_events w (snd run) = pre @ es"
      by (simp add: r es t new_events_def)
    note pf = lookups_prefix [OF gets lock_def]
    show ?goal
      unfolding ne using np acq left pf(4) rel k
      by (auto simp add: pf(2) r fst_respond)
  qed
  have quiet: ?goal
    if ne: "new_events w (snd run) = pre" and gets: "\<forall>e \<in> set pre. \<exists>k r. e = StoreCall (GET k) r"
      and k: "kv (snd run) = kv w" for pre
  proof -
    note pf = lookups_prefix [OF gets lock_def]
    show ?goal unfolding ne using pf(2) [of "[]"] pf(4) k by auto
  qed
  have main: ?goal
  proof (cases "truthy_opt (b_url body)")
    case False
    then show ?thesis
      by (intro quiet [of "[]"]) (simp_all add: run_def handleGenerateSummary_def)
  next
    case url: True
    show ?thesis
    proof (cases "got w (''url:'' @ n)")
      case None
      with url show ?thesis
        by (intro steps [of "after w g" "[StoreCall g (reply_of w g)]"])
           (simp_all add: run_def g_def n_def handleGenerateSummary_def await_def Let_def client_eqs)
    next
      case (Some x)
      define a where "a = GET (''article:'' @ sval_text x)"
      show ?thesis
      proof (cases "got (after w g) (''article:'' @ sval_text x)")
        case None
        with url Some show ?thesis
          by (intro steps [of "after (after w g) a"
                 "[StoreCall g (reply_of w g), StoreCall a (reply_of (after w g) a)]"])
             (simp_all add: run_def g_def a_def n_def handleGenerateSummary_def await_def Let_def
                client_eqs)
      next
        case c: (Some c)
        with url Some show ?thesis
          by (intro quiet [of "[StoreCall g (reply_of w g), StoreCall a (reply_of (after w g) a)]"])
             (simp_all add: run_def g_def a_def n_def handleGenerateSummary_def await_def Let_def
                client_eqs new_events_def split: option.splits)
      qed
    qed
  qed
  then show ?thesis
    unfolding Let_def run_def lock_def lk_def h_def n_def .
qed

subsection \<open>Runs on a reliable transport\<close>

lemmas gen_defs = handleGenerateSummary_def generate_steps_def generate_locked_def
  release_on_error_def createPrediction_def respond_def await_def Let_def client_eqs
  complete_response_def

lemma reliable_trace [simp]: "reliable (w\<lparr>trace := t\<rparr>) = reliable w"
  by (simp add: reliable_def)

lemma reply_of_trace [simp]: "reply_of (w\<lparr>trace := t\<rparr>) cmd = reply_of w cmd"
  by (simp add: reply_of_def executeCommand_def Let_def split: prod.splits)

lemma trim_Nil [simp]: "trim [] = []"
  by (simp add: trim_def)

lemma gen_fresh:
  assumes "reliable w" and "truthy_opt (b_url body)"
    and n: "n = normalizeUrl P (the (b_url body))" and h: "h = hash_of P body n"
    and "lookup (kv w) (''url:'' @ n) = None" and "lookup (kv w) (''article:'' @ h) = None"
    and "kv w (''lock:'' @ h) = None"
    and "trim (text_of P body n) \<noteq> []"
    and "replicate_api P (prompt (text_of P body n) (or_else (b_headline body) [])) = Inr pid"
  shows "fst (handleGenerateSummary P w (Inr body)) = Processing h pid"
    and "issued (new_events w (snd (handleGenerateSummary P w (Inr body)))) =
           [GET (''url:'' @ n), GET (''article:'' @ h), SETNX (''lock:'' @ h) (Txt ''1'') 60,
            SET (''prediction:'' @ pid)
              (PredictionJson \<lparr>p_hash = h, p_headline = Some (or_else (b_headline body) []),
                               p_normalizedUrl = Some n\<rparr>) (Some 3600)]"
    and "provider_calls (new_events w (snd (handleGenerateSummary P w (Inr body)))) =
           [(text_of P body n, or_else (b_headline body) [])]"
    and "kv (snd (handleGenerateSummary P w (Inr body))) =
           (kv w)(''lock:'' @ h \<mapsto> (Txt ''1'', Some 60),
                  ''prediction:'' @ pid \<mapsto>
                    (PredictionJson \<lparr>p_hash = h, p_headline = Some (or_else (b_headline body) []),
                                     p_normalizedUrl = Some n\<rparr>, Some 3600))"
    and "reliable (snd (handleGenerateSummary P w (Inr body)))"
proof -
  have t: "truthy (text_of P body n)" using assms(8) by (auto simp add: truthy_def)
  show "fst (handleGenerateSummary P w (Inr body)) = Processing h pid"
    and "issued (new_events w (snd (handleGenerateSummary P w (Inr body)))) =
           [GET (''url:'' @ n), GET (''article:'' @ h), SETNX (''lock:'' @ h) (Txt ''1'') 60,
            SET (''prediction:'' @ pid)
              (PredictionJson \<lparr>p_hash = h, p_headline = Some (or_else (b_headline body) []),
                               p_normalizedUrl = Some n\<rparr>) (Some 3600)]"
    and "provider_calls (new_events w (snd (handleGenerateSummary P w (Inr body)))) =
           [(text_of P body n, or_else (b_headline body) [])]"
    and "kv (snd (handleGenerateSummary P w (Inr body))) =
           (kv w)(''lock:'' @ h \<mapsto> (Txt ''1'', Some 60),
                  ''prediction:'' @ pid \<mapsto>
                    (PredictionJson \<lparr>p_hash = h, p_headline = Some (or_else (b_headline body) []),
                                     p_normalizedUrl = Some n\<rparr>, Some 3600))"
    and "reliable (snd (handleGenerateSummary P w (Inr body)))"
    using assms(1,2,5-9) t
    by (simp_all add: gen_defs n [symmetric] h [symmetric] got_reliable reply_of_reliable
          kv_after new_events_def)
qed

lemma gen_busy:
  assumes "reliable w" and "truthy_opt (b_url body)"
    and n: "n = normalizeUrl P (the (b_url body))" and h: "h = hash_of P body n"
    and "lookup (kv w) (''url:'' @ n) = None" and "lookup (kv w) (''article:'' @ h) = None"
    and "kv w (''lock:'' @ h) = Some e"
  shows "fst (handleGenerateSummary P w (Inr body)) = Pending h"
    and "issued (new_events w (snd (handleGenerateSummary P w (Inr body)))) =
           [GET (''url:'' @ n), GET (''article:'' @ h), SETNX (''lock:'' @ h) (Txt ''1'') 60]"
    and "StoreCall (SETNX (''lock:'' @ h) (Txt ''1'') 60) (Some Null)
           \<in> set (new_events w (snd (handleGenerateSummary P w (Inr body))))"
    and "kv (snd (handleGenerateSummary P w (Inr body))) = kv w"
  using assms(1,2,5-7)
  by (simp_all add: gen_defs n [symmetric] h [symmetric] got_reliable reply_of_reliable
        kv_after new_events_def)

lemma gen_no_text:
  assumes "reliable w" and "truthy_opt (b_url body)"
    and n: "n = normalizeUrl P (the (b_url body))" and h: "h = hash_of P body n"
    and "lookup (kv w) (''url:'' @ n) = None" and "lookup (kv w) (''article:'' @ h) = None"
    and "kv w (''lock:'' @ h) = None"
    and "trim (text_of P body n) = []"
  shows "fst (handleGenerateSummary P w (Inr body)) =
           BadRequest ''No content available for summarization''"
    and "issued (new_events w (snd (handleGenerateSummary P w (Inr body)))) =
           [GET (''url:'' @ n), GET (''article:'' @ h), SETNX (''lock:'' @ h) (Txt ''1'') 60,
            DEL (''lock:'' @ h)]"
    and "StoreCall (SETNX (''lock:'' @ h) (Txt ''1'') 60) (Some (Str (Txt ''OK'')))
           \<in> set (new_events w (snd (handleGenerateSummary P w (Inr body))))"
    and "kv (snd (handleGenerateSummary P w (Inr body))) (''lock:'' @ h) = None"
  using assms(1,2,5-8)
  by (simp_all add: gen_defs n [symmetric] h [symmetric] got_reliable reply_of_reliable
        kv_after new_events_def)

lemma example_request_facts:
  "truthy_opt (b_url example_request)"
  "the (b_url example_request) = ''https://m.example.com/a?utm_source=x''"
  "text_of example_platform example_request n = ''S''"
  "hash_of example_platform example_request n = generateContentHash n ''H'' ''S''"
  "or_else (b_headline example_request) [] = ''H''"
  "replicate_api example_platform p = Inr ''job1''"
  "trim ''S'' = ''S''"
  by (simp_all add: example_request_def example_platform_def text_of_def hash_of_def
      extractedText_of_def or_else_def truthy_opt_def truthy_def substring0_def trim_def
      is_space_def)

lemma empty_request_facts:
  "truthy_opt (b_url empty_request)"
  "the (b_url empty_request) = ''https://m.example.com/a?utm_source=x''"
  "text_of example_platform empty_request n = []"
  "hash_of example_platform empty_request n = generateContentHash n ''H'' []"
  by (simp_all add: empty_request_def example_platform_def text_of_def hash_of_def
      extractedText_of_def or_else_def truthy_opt_def truthy_def substring0_def)

theorem generate_provider_only_under_lock_witness:
  "fst (handleGenerateSummary example_platform empty_world (Inr example_request)) =
     Processing (generateContentHash ''https://example.com/a'' ''H'' ''S'') ''job1''
   \<and> guarded (SETNX (''lock:'' @ generateContentHash ''https://example.com/a'' ''H'' ''S'')
                (Txt ''1'') 60) False
        (new_events empty_world
           (snd (handleGenerateSummary example_platform empty_world (Inr example_request))))
   \<and> provider_calls
        (new_events empty_world
           (snd (handleGenerateSummary example_platform empty_world (Inr example_request)))) =
       [(''S'', ''H'')]
   \<and> fst (handleGenerateSummary example_platform
            (snd (handleGenerateSummary example_platform empty_world (Inr example_request)))
            (Inr example_request)) =
       Pending (generateContentHash ''https://example.com/a'' ''H'' ''S'')
   \<and> provider_calls
        (new_events
           (snd (handleGenerateSummary example_platform empty_world (Inr example_request)))
           (snd (handleGenerateSummary example_platform
                   (snd (handleGenerateSummary example_platform empty_world (Inr example_request)))
                   (Inr example_request)))) = []"
proof -
  let ?H = "generateContentHash ''https://example.com/a'' ''H'' ''S''"
  define w1 where
    "w1 = snd (handleGenerateSummary example_platform empty_world (Inr example_request))"
  have first: "fst (handleGenerateSummary example_platform empty_world (Inr example_request)) =
                 Processing ?H ''job1''"
    and calls: "provider_calls (new_events empty_world w1) = [(''S'', ''H'')]"
    and kv1: "kv w1 = (kv empty_world)
                (''lock:'' @ ?H \<mapsto> (Txt ''1'', Some 60),
                 ''prediction:job1'' \<mapsto>
                   (PredictionJson \<lparr>p_hash = ?H, p_headline = Some ''H'',
                                    p_normalizedUrl = Some ''https://example.com/a''\<rparr>, Some 3600))"
    and rel1: "reliable w1"
    using gen_fresh(1,3,4,5) [of empty_world example_request "''https://example.com/a''"
            example_platform ?H "''job1''"]
    by (simp_all add: w1_def empty_world_facts example_request_facts example_normalizeUrl)
  have busy: "StoreCall (SETNX (''lock:'' @ ?H) (Txt ''1'') 60) (Some Null)
                \<in> set (new_events w1 (snd (handleGenerateSummary example_platform w1 (Inr example_request))))"
    using gen_busy(3) [of w1 example_request "''https://example.com/a''" example_platform ?H
            "(Txt ''1'', Some 60)"] rel1
    by (simp add: kv1 lookup_def empty_world_facts example_request_facts example_normalizeUrl)
  have guard: "guarded (SETNX (''lock:'' @ ?H) (Txt ''1'') 60) False (new_events empty_world w1)"
    using generate_provider_only_under_lock [of example_platform example_request empty_world]
    by (simp add: Let_def w1_def example_request_facts example_normalizeUrl)
  have second: "fst (handleGenerateSummary example_platform w1 (Inr example_request)) = Pending ?H
       \<and> provider_calls
            (new_events w1 (snd (handleGenerateSummary example_platform w1 (Inr example_request)))) = []"
    using generate_provider_only_under_lock [of example_platform example_request w1] busy
    by (auto simp add: Let_def example_request_facts example_normalizeUrl)
  show ?thesis
    using first calls guard second unfolding w1_def by simp
qed

theorem generate_empty_text_no_provider_witness:
  "trim (text_of example_platform empty_request
           (normalizeUrl example_platform (the (b_url empty_request)))) = []
   \<and> provider_calls
        (new_events empty_world
           (snd (handleGenerateSummary example_platform empty_world (Inr empty_request)))) = []
   \<and> fst (handleGenerateSummary example_platform empty_world (Inr empty_request)) =
       BadRequest ''No content available for summarization''
   \<and> last (issued
        (new_events empty_world
           (snd (handleGenerateSummary example_platform empty_world (Inr empty_request))))) =
       DEL (''lock:'' @ generateContentHash ''https://example.com/a'' ''H'' [])
   \<and> kv (snd (handleGenerateSummary example_platform empty_world (Inr empty_request)))
        (''lock:'' @ generateContentHash ''https://example.com/a'' ''H'' []) = None"
proof -
  let ?H = "generateContentHash ''https://example.com/a'' ''H'' []"
  have acq: "StoreCall (SETNX (''lock:'' @ ?H) (Txt ''1'') 60) (Some (Str (Txt ''OK'')))
               \<in> set (new_events empty_world
                        (snd (handleGenerateSummary example_platform empty_world (Inr empty_request))))"
    using gen_no_text(3) [of empty_world empty_request "''https://example.com/a''"
            example_platform ?H]
    by (simp add: empty_world_facts empty_request_facts example_normalizeUrl)
  have e: "trim (text_of example_platform empty_request
                   (normalizeUrl example_platform (the (b_url empty_request)))) = []"
    by (simp add: empty_request_facts)
  show ?thesis
    using generate_empty_text_no_provider [OF e, of empty_world] acq e
    by (simp add: Let_def empty_world_facts empty_request_facts example_normalizeUrl)
qed

text \<open>
  C2 as stated fails: for a request with no page and no snippet on an empty store, the
  resolved text is empty and the run still sends the conditional set on the lock (and
  then the deletion of the lock).
\<close>

theorem generate_empty_text_takes_lock:
  "text_of example_platform empty_request ''https://example.com/a'' = []
   \<and> normalizeUrl example_platform (the (b_url empty_request)) = ''https://example.com/a''
   \<and> issued (new_events empty_world
        (snd (handleGenerateSummary example_platform empty_world (Inr empty_request)))) =
       [GET ''url:https://example.com/a'',
        GET (''article:'' @ generateContentHash ''https://example.com/a'' ''H'' []),
        SETNX (''lock:'' @ generateContentHash ''https://example.com/a'' ''H'' []) (Txt ''1'') 60,
        DEL (''lock:'' @ generateContentHash ''https://example.com/a'' ''H'' [])]"
  using gen_no_text(2) [of empty_world empty_request "''https://example.com/a''"
          example_platform "generateContentHash ''https://example.com/a'' ''H'' []"]
  by (simp add: empty_world_facts empty_request_facts example_normalizeUrl)

section \<open>URL normalization\<close>

lemma pathname_deletes [simp]: "pathname (fold searchParams_delete ps u) = pathname u"
  by (induction ps arbitrary: u) (simp_all add: searchParams_delete_def)

text \<open>
  The normalizer applies its mobile patterns to the host name only, so the only change it
  makes to a path is the dropped trailing slash.
\<close>

lemma normalize_parts_pathname:
  "pathname (normalize_parts u) =
     (if length (pathname u) > 1 \<and> endsWith (pathname u) ''/'' then butlast (pathname u)
      else pathname u)"
  by (auto simp add: normalize_parts_def Let_def set_hostname_def)

text \<open>
  C9: the normalizer is to collapse the path segments \<open>/mobile/\<close> and \<open>/m/\<close>. The code keeps
  them: the address \<open>https://example.com/mobile/a\<close> is returned as it is (its host has
  nothing to collapse, and the path is not rewritten), while the host prefix \<open>m.\<close> of
  \<open>https://m.example.com/a?utm_source=x\<close> is removed together with the tracking
  parameter.
\<close>

theorem normalizeUrl_keeps_mobile_path:
  "normalizeUrl example_platform ''https://example.com/mobile/a'' = ''https://example.com/mobile/a''
   \<and> pathname (normalize_parts
        \<lparr>protocol = ''https:'', username = [], password = [], hostname = ''example.com'',
         port = [], pathname = ''/m/a'', searchParams = [], fragment = []\<rparr>) = ''/m/a''
   \<and> normalizeUrl example_platform ''https://m.example.com/a?utm_source=x'' =
       ''https://example.com/a''"
  by (simp add: example_normalizeUrl normalize_parts_pathname endsWith_def)

section \<open>The fingerprint\<close>

lemma fingerprint_a:
  "generateContentHash ''http://a/'' ''T'' ''x'' =
     ''104f078892b79c1587a23f30edac5254e4aabf1391762d1e6707c1f871a76ace''"
  by code_simp

lemma fingerprint_b:
  "generateContentHash ''http://b/'' ''T'' ''x'' =
     ''4c5d67c12d33878431ff3350777904a33ba097a0d22e32b63de1a81a884beafa''"
  by code_simp

text \<open>
  C4: two distinct normalized URLs with the same trimmed headline and the same first 300
  characters of trimmed text are to get the same fingerprint. The code gives them
  different ones: the normalized URL is a field of the text that is hashed, so for the
  headline \<open>T\<close> and the text \<open>x\<close> the URLs \<open>http://a/\<close> and \<open>http://b/\<close> have the
  fingerprints \<open>104f07...\<close> and \<open>4c5d67...\<close>.
\<close>

theorem fingerprint_depends_on_url:
  "''http://a/'' \<noteq> ''http://b/''
   \<and> trim ''T'' = trim ''T''
   \<and> substring0 300 (trim ''x'') = substring0 300 (trim ''x'')
   \<and> generateContentHash ''http://a/'' ''T'' ''x'' =
       ''104f078892b79c1587a23f30edac5254e4aabf1391762d1e6707c1f871a76ace''
   \<and> generateContentHash ''http://b/'' ''T'' ''x'' =
       ''4c5d67c12d33878431ff3350777904a33ba097a0d22e32b63de1a81a884beafa''
   \<and> generateContentHash ''http://a/'' ''T'' ''x'' \<noteq> generateContentHash ''http://b/'' ''T'' ''x''"
  by (simp add: fingerprint_a fingerprint_b)

end
